theory Spec2Isabelle
  imports Complex_Main
begin

section \<open>The GLPI node: values, strings and the platform functions it calls\<close>

text \<open>
  The repository holds three drafts of one n8n node. The current one is the first
  document of \<^verbatim>\<open>src/nodes/Glpi/Glpi.node.ts\<close> (lines 1 to 270): it fetches the
  OAuth2 token itself, validates the HTTP method, checks for unresolved path tokens and
  looks the routable properties up in a pre-built index. The second document of that
  file (lines 271 to 490) and \<^verbatim>\<open>src/unnamed/part_000\<close> are earlier drafts.
  This theory embeds the current draft; the classifier and the normalizer of the
  earlier drafts, which decide differently, are embedded under names ending in
  \<open>_draft\<close>, for comparison.

  A JavaScript string is modelled by its UTF-8 bytes (\<^typ>\<open>string\<close>); an unpaired
  surrogate code unit is written as the three bytes its number gives. A number is the
  exact rational it denotes: rounding to binary64 is not modelled.
\<close>

subsection \<open>JavaScript values\<close>

datatype jsval =
    JUndefined
  | JNull
  | JBool bool
  | JNum rat
  | JStr string
  | JArr "jsval list"
  | JObj "(string \<times> jsval) list"

text \<open>\<^verbatim>\<open>obj[key] = value\<close> on a plain object kept as its list of own properties.\<close>

fun obj_set :: "(string \<times> 'v) list \<Rightarrow> string \<Rightarrow> 'v \<Rightarrow> (string \<times> 'v) list" where
  "obj_set [] k v = [(k, v)]"
| "obj_set ((k', v') # kvs) k v =
     (if k' = k then (k, v) # kvs else (k', v') # obj_set kvs k v)"

text \<open>\<^verbatim>\<open>Object.keys(v).length\<close> for a value with \<^verbatim>\<open>typeof v === 'object'\<close>
  that is not null: the own properties of an object, the indices of an array.\<close>

fun keys_length :: "jsval \<Rightarrow> nat" where
  "keys_length (JArr xs) = length xs"
| "keys_length (JObj kvs) = length kvs"
| "keys_length _ = 0"

fun is_object :: "jsval \<Rightarrow> bool" where
  "is_object (JArr _) = True"
| "is_object (JObj _) = True"
| "is_object _ = False"

subsection \<open>\<^verbatim>\<open>String.prototype.trim\<close>\<close>

text \<open>The white space and line terminators of ECMAScript, each as its UTF-8 bytes:
  U+0009 to U+000D, U+0020, U+00A0, U+1680, U+2000 to U+200A, U+2028, U+2029, U+202F,
  U+205F, U+3000 and U+FEFF.\<close>

definition js_whitespace :: "string list" where
  "js_whitespace =
     [[CHR 0x09], [CHR 0x0A], [CHR 0x0B], [CHR 0x0C], [CHR 0x0D], [CHR 0x20],
      [CHR 0xC2, CHR 0xA0],
      [CHR 0xE1, CHR 0x9A, CHR 0x80],
      [CHR 0xE2, CHR 0x80, CHR 0x80], [CHR 0xE2, CHR 0x80, CHR 0x81],
      [CHR 0xE2, CHR 0x80, CHR 0x82], [CHR 0xE2, CHR 0x80, CHR 0x83],
      [CHR 0xE2, CHR 0x80, CHR 0x84], [CHR 0xE2, CHR 0x80, CHR 0x85],
      [CHR 0xE2, CHR 0x80, CHR 0x86], [CHR 0xE2, CHR 0x80, CHR 0x87],
      [CHR 0xE2, CHR 0x80, CHR 0x88], [CHR 0xE2, CHR 0x80, CHR 0x89],
      [CHR 0xE2, CHR 0x80, CHR 0x8A],
      [CHR 0xE2, CHR 0x80, CHR 0xA8], [CHR 0xE2, CHR 0x80, CHR 0xA9],
      [CHR 0xE2, CHR 0x80, CHR 0xAF],
      [CHR 0xE2, CHR 0x81, CHR 0x9F],
      [CHR 0xE3, CHR 0x80, CHR 0x80],
      [CHR 0xEF, CHR 0xBB, CHR 0xBF]]"

text \<open>The white-space character a string starts with, if any.\<close>

definition leading_ws :: "string \<Rightarrow> string option" where
  "leading_ws s = find (\<lambda>w. take (length w) s = w) js_whitespace"

text \<open>The white-space character a string ends with, if any.\<close>

definition trailing_ws :: "string \<Rightarrow> string option" where
  "trailing_ws s = find (\<lambda>w. length w \<le> length s \<and> drop (length s - length w) s = w) js_whitespace"

function trimStart :: "string \<Rightarrow> string" where
  "trimStart s =
     (case leading_ws s of
        None \<Rightarrow> s
      | Some w \<Rightarrow> if w = [] \<or> s = [] then s else trimStart (drop (length w) s))"
  by pat_completeness auto
termination
  by (relation "measure length") auto

declare trimStart.simps [simp del]

function trimEnd :: "string \<Rightarrow> string" where
  "trimEnd s =
     (case trailing_ws s of
        None \<Rightarrow> s
      | Some w \<Rightarrow> if w = [] \<or> s = [] then s else trimEnd (take (length s - length w) s))"
  by pat_completeness auto
termination
  by (relation "measure length") auto

declare trimEnd.simps [simp del]

definition trim :: "string \<Rightarrow> string" where
  "trim s = trimEnd (trimStart s)"

subsection \<open>\<^verbatim>\<open>JSON.parse\<close>\<close>

text \<open>The grammar of ECMA-404, which \<^verbatim>\<open>JSON.parse\<close> accepts: white space is space,
  tab, line feed and carriage return; a value is an object, an array, a string, a number
  or one of \<^verbatim>\<open>true\<close>, \<^verbatim>\<open>false\<close>, \<^verbatim>\<open>null\<close>. \<open>None\<close> is the SyntaxError.\<close>

definition json_ws :: "char \<Rightarrow> bool" where
  "json_ws c = (c = CHR 0x20 \<or> c = CHR 0x09 \<or> c = CHR 0x0A \<or> c = CHR 0x0D)"

definition skip_ws :: "string \<Rightarrow> string" where
  "skip_ws s = dropWhile json_ws s"

definition is_digit :: "char \<Rightarrow> bool" where
  "is_digit c = (c \<in> set ''0123456789'')"

definition digit_val :: "char \<Rightarrow> nat" where
  "digit_val c = of_char c - 48"

definition digits_val :: "string \<Rightarrow> nat" where
  "digits_val ds = foldl (\<lambda>n d. 10 * n + digit_val d) 0 ds"

definition hex_val :: "char \<Rightarrow> nat option" where
  "hex_val c =
     (if c \<in> set ''0123456789'' then Some (of_char c - 48)
      else if c \<in> set ''abcdef'' then Some (of_char c - 87)
      else if c \<in> set ''ABCDEF'' then Some (of_char c - 55)
      else None)"

text \<open>The code unit that four hexadecimal digits write.\<close>

fun hex4 :: "string \<Rightarrow> nat option" where
  "hex4 [a, b, c, d] =
     (case (hex_val a, hex_val b, hex_val c, hex_val d) of
        (Some x, Some y, Some z, Some w) \<Rightarrow> Some (4096 * x + 256 * y + 16 * z + w)
      | _ \<Rightarrow> None)"
| "hex4 _ = None"

text \<open>The UTF-8 bytes of a code point.\<close>

definition utf8 :: "nat \<Rightarrow> string" where
  "utf8 n =
     (if n < 0x80 then [char_of n]
      else if n < 0x800 then [char_of (0xC0 + n div 64), char_of (0x80 + n mod 64)]
      else if n < 0x10000 then
        [char_of (0xE0 + n div 4096), char_of (0x80 + n div 64 mod 64), char_of (0x80 + n mod 64)]
      else
        [char_of (0xF0 + n div 262144), char_of (0x80 + n div 4096 mod 64),
         char_of (0x80 + n div 64 mod 64), char_of (0x80 + n mod 64)])"

text \<open>The text after \<^verbatim>\<open>\u\<close>: four hexadecimal digits; a high surrogate followed by
  an escaped low surrogate is one code point.\<close>

definition unescape_u :: "string \<Rightarrow> (string \<times> string) option" where
  "unescape_u r =
     (case hex4 (take 4 r) of
        None \<Rightarrow> None
      | Some u \<Rightarrow>
          let r1 = drop 4 r in
          if 0xD800 \<le> u \<and> u \<le> 0xDBFF \<and> take 2 r1 = [CHR 0x5C, CHR ''u''] then
            (case hex4 (take 4 (drop 2 r1)) of
               None \<Rightarrow> Some (utf8 u, r1)
             | Some l \<Rightarrow>
                 if 0xDC00 \<le> l \<and> l \<le> 0xDFFF
                 then Some (utf8 (0x10000 + (u - 0xD800) * 0x400 + (l - 0xDC00)), drop 6 r1)
                 else Some (utf8 u, r1))
          else Some (utf8 u, r1))"

definition simple_escape :: "char \<Rightarrow> char option" where
  "simple_escape e =
     (if e = CHR 0x22 then Some (CHR 0x22)
      else if e = CHR 0x5C then Some (CHR 0x5C)
      else if e = CHR ''/'' then Some (CHR ''/'')
      else if e = CHR ''b'' then Some (CHR 0x08)
      else if e = CHR ''f'' then Some (CHR 0x0C)
      else if e = CHR ''n'' then Some (CHR 0x0A)
      else if e = CHR ''r'' then Some (CHR 0x0D)
      else if e = CHR ''t'' then Some (CHR 0x09)
      else None)"

lemma hex4_Some_length: "hex4 xs = Some u \<Longrightarrow> length xs = 4"
  by (cases xs rule: hex4.cases) auto

lemma length_utf8_le: "length (utf8 n) \<le> 4"
  by (simp add: utf8_def)

lemma unescape_u_length:
  assumes "unescape_u r = Some (bs, rest)"
  shows "length bs + length rest \<le> length r \<and> length rest < length r"
proof -
  from assms obtain u where u: "hex4 (take 4 r) = Some u"
    by (auto simp: unescape_u_def split: option.splits)
  from hex4_Some_length [OF u] have len: "4 \<le> length r"
    by (simp add: min_def split: if_splits)
  have b: "length (utf8 n) + (length r - 4) \<le> length r" for n
    using length_utf8_le [of n] len by arith
  have c: "length (utf8 n) + (length r - 10) \<le> length r" for n
    using length_utf8_le [of n] len by arith
  from assms u len b c show ?thesis
    by (auto simp: unescape_u_def Let_def split: option.splits if_splits)
qed

text \<open>The characters of a string after its opening quote, up to the closing quote:
  the string denoted and the text after the closing quote.\<close>

function parse_string_body :: "string \<Rightarrow> (string \<times> string) option" where
  "parse_string_body [] = None"
| "parse_string_body (c # cs) =
     (if c = CHR 0x22 then Some ([], cs)
      else if c = CHR 0x5C then
        (case cs of
           [] \<Rightarrow> None
         | e # r \<Rightarrow>
             if e = CHR ''u'' then
               (case unescape_u r of
                  None \<Rightarrow> None
                | Some (bs, rest) \<Rightarrow>
                    (case parse_string_body rest of
                       None \<Rightarrow> None
                     | Some (s, rest') \<Rightarrow> Some (bs @ s, rest')))
             else
               (case simple_escape e of
                  None \<Rightarrow> None
                | Some ch \<Rightarrow>
                    (case parse_string_body r of
                       None \<Rightarrow> None
                     | Some (s, rest') \<Rightarrow> Some (ch # s, rest'))))
      else if (of_char c :: nat) < 0x20 then None
      else
        (case parse_string_body cs of
           None \<Rightarrow> None
         | Some (s, rest') \<Rightarrow> Some (c # s, rest')))"
  by pat_completeness auto
termination
  by (relation "measure length") (auto dest: unescape_u_length)

text \<open>A number: \<^verbatim>\<open>-?(0|[1-9][0-9]*)(\.[0-9]+)?([eE][+-]?[0-9]+)?\<close>, and the text after it.\<close>

definition parse_int_part :: "string \<Rightarrow> (string \<times> string) option" where
  "parse_int_part s =
     (case s of
        [] \<Rightarrow> None
      | c # r \<Rightarrow>
          if c = CHR ''0'' then Some ([c], r)
          else if is_digit c then Some (c # takeWhile is_digit r, dropWhile is_digit r)
          else None)"

definition parse_frac_part :: "string \<Rightarrow> (string \<times> string) option" where
  "parse_frac_part s =
     (case s of
        [] \<Rightarrow> Some ([], s)
      | c # r \<Rightarrow>
          if c = CHR ''.'' then
            (if takeWhile is_digit r = [] then None
             else Some (takeWhile is_digit r, dropWhile is_digit r))
          else Some ([], s))"

definition parse_exp_digits :: "bool \<Rightarrow> string \<Rightarrow> (int \<times> string) option" where
  "parse_exp_digits neg r =
     (if takeWhile is_digit r = [] then None
      else Some ((if neg then - int (digits_val (takeWhile is_digit r))
                  else int (digits_val (takeWhile is_digit r))),
                 dropWhile is_digit r))"

definition parse_exp_part :: "string \<Rightarrow> (int \<times> string) option" where
  "parse_exp_part s =
     (case s of
        [] \<Rightarrow> Some (0, s)
      | c # r \<Rightarrow>
          if c = CHR ''e'' \<or> c = CHR ''E'' then
            (case r of
               [] \<Rightarrow> None
             | g # r' \<Rightarrow>
                 if g = CHR ''+'' then parse_exp_digits False r'
                 else if g = CHR ''-'' then parse_exp_digits True r'
                 else parse_exp_digits False r)
          else Some (0, s))"

definition scale10 :: "rat \<Rightarrow> int \<Rightarrow> rat" where
  "scale10 m k = (if 0 \<le> k then m * 10 ^ nat k else m / 10 ^ nat (- k))"

definition parse_unsigned :: "string \<Rightarrow> (rat \<times> string) option" where
  "parse_unsigned s =
     (case parse_int_part s of
        None \<Rightarrow> None
      | Some (ip, s2) \<Rightarrow>
          (case parse_frac_part s2 of
             None \<Rightarrow> None
           | Some (fd, s3) \<Rightarrow>
               (case parse_exp_part s3 of
                  None \<Rightarrow> None
                | Some (ex, s4) \<Rightarrow>
                    Some (scale10 (of_nat (digits_val (ip @ fd))) (ex - int (length fd)), s4))))"

definition parse_number :: "string \<Rightarrow> (rat \<times> string) option" where
  "parse_number s =
     (case s of
        [] \<Rightarrow> None
      | c # r \<Rightarrow>
          if c = CHR ''-'' then
            (case parse_unsigned r of None \<Rightarrow> None | Some (x, rest) \<Rightarrow> Some (- x, rest))
          else parse_unsigned s)"

lemma skip_ws_length: "length (skip_ws s) \<le> length s"
  by (simp add: skip_ws_def length_dropWhile_le)

lemma skip_ws_Cons_length: "skip_ws s = c # cs \<Longrightarrow> length cs < length s"
  using skip_ws_length [of s] by simp

text \<open>
  The recursive descent. \<open>parse_value\<close> reads one value after white space and returns
  it with the text that follows; \<open>parse_elements\<close> reads the elements of an array after
  its bracket and \<open>parse_members\<close> the members of an object after its brace, both with
  the part read so far. Each tests that the value it has just read used up some text:
  the test never fails (lemma \<open>parse_consumes\<close> below) and makes the recursion
  well-founded on the length of the text. A repeated key keeps its place and takes the
  last value, as assignment does.
\<close>

function parse_value :: "string \<Rightarrow> (jsval \<times> string) option"
  and parse_elements :: "string \<Rightarrow> jsval list \<Rightarrow> (jsval list \<times> string) option"
  and parse_members ::
    "string \<Rightarrow> (string \<times> jsval) list \<Rightarrow> ((string \<times> jsval) list \<times> string) option"
where
  "parse_value s =
     (case skip_ws s of
        [] \<Rightarrow> None
      | c # cs \<Rightarrow>
          if c = CHR ''{'' then
            (case skip_ws cs of
               [] \<Rightarrow> None
             | d # ds \<Rightarrow>
                 if d = CHR ''}'' then Some (JObj [], ds)
                 else
                   (case parse_members cs [] of
                      None \<Rightarrow> None
                    | Some (kvs, rest) \<Rightarrow> Some (JObj kvs, rest)))
          else if c = CHR ''['' then
            (case skip_ws cs of
               [] \<Rightarrow> None
             | d # ds \<Rightarrow>
                 if d = CHR '']'' then Some (JArr [], ds)
                 else
                   (case parse_elements cs [] of
                      None \<Rightarrow> None
                    | Some (xs, rest) \<Rightarrow> Some (JArr xs, rest)))
          else if c = CHR 0x22 then
            (case parse_string_body cs of
               None \<Rightarrow> None
             | Some (str, rest) \<Rightarrow> Some (JStr str, rest))
          else if c = CHR ''t'' then
            (if take 4 (c # cs) = ''true'' then Some (JBool True, drop 4 (c # cs)) else None)
          else if c = CHR ''f'' then
            (if take 5 (c # cs) = ''false'' then Some (JBool False, drop 5 (c # cs)) else None)
          else if c = CHR ''n'' then
            (if take 4 (c # cs) = ''null'' then Some (JNull, drop 4 (c # cs)) else None)
          else
            (case parse_number (c # cs) of
               None \<Rightarrow> None
             | Some (x, rest) \<Rightarrow> Some (JNum x, rest)))"
| "parse_elements s acc =
     (case parse_value s of
        None \<Rightarrow> None
      | Some (v, rest) \<Rightarrow>
          if \<not> length rest < length s then None
          else
            (case skip_ws rest of
               [] \<Rightarrow> None
             | d # ds \<Rightarrow>
                 if d = CHR '','' then parse_elements ds (acc @ [v])
                 else if d = CHR '']'' then Some (acc @ [v], ds)
                 else None))"
| "parse_members s acc =
     (case skip_ws s of
        [] \<Rightarrow> None
      | q # qs \<Rightarrow>
          if q \<noteq> CHR 0x22 then None
          else
            (case parse_string_body qs of
               None \<Rightarrow> None
             | Some (k, rest) \<Rightarrow>
                 (case skip_ws rest of
                    [] \<Rightarrow> None
                  | col # vs \<Rightarrow>
                      if col \<noteq> CHR '':'' \<or> \<not> length vs < length s then None
                      else
                        (case parse_value vs of
                           None \<Rightarrow> None
                         | Some (v, rest') \<Rightarrow>
                             if \<not> length rest' < length vs then None
                             else
                               (case skip_ws rest' of
                                  [] \<Rightarrow> None
                                | d # ds \<Rightarrow>
                                    if d = CHR '','' then parse_members ds (obj_set acc k v)
                                    else if d = CHR ''}'' then Some (obj_set acc k v, ds)
                                    else None)))))"
  by pat_completeness auto
termination
  by (relation "measure (\<lambda>x. case x of
         Inl s \<Rightarrow> 2 * length s
       | Inr (Inl (s, acc)) \<Rightarrow> 2 * length s + 1
       | Inr (Inr (s, acc)) \<Rightarrow> 2 * length s + 1)")
     (auto dest: skip_ws_Cons_length)

declare parse_value.simps [simp del] parse_elements.simps [simp del]
  parse_members.simps [simp del]

text \<open>\<^verbatim>\<open>JSON.parse(text)\<close>: one value, with nothing but white space after it.\<close>

definition JSON_parse :: "string \<Rightarrow> jsval option" where
  "JSON_parse s =
     (case parse_value s of
        None \<Rightarrow> None
      | Some (v, rest) \<Rightarrow> if skip_ws rest = [] then Some v else None)"

subsection \<open>Lengths: what trimming and parsing do to a text\<close>

lemma trimStart_length: "length (trimStart s) \<le> length s"
proof (induction s rule: trimStart.induct)
  case (1 s)
  show ?case
  proof (cases "leading_ws s")
    case None
    then show ?thesis by (subst trimStart.simps) simp
  next
    case (Some w)
    show ?thesis
    proof (cases "w = [] \<or> s = []")
      case True
      with Some show ?thesis by (subst trimStart.simps) simp
    next
      case False
      with Some 1 have "length (trimStart (drop (length w) s)) \<le> length (drop (length w) s)"
        by simp
      with Some False show ?thesis by (subst trimStart.simps) simp
    qed
  qed
qed

lemma trimEnd_length: "length (trimEnd s) \<le> length s"
proof (induction s rule: trimEnd.induct)
  case (1 s)
  show ?case
  proof (cases "trailing_ws s")
    case None
    then show ?thesis by (subst trimEnd.simps) simp
  next
    case (Some w)
    show ?thesis
    proof (cases "w = [] \<or> s = []")
      case True
      with Some show ?thesis by (subst trimEnd.simps) simp
    next
      case False
      with Some 1
      have "length (trimEnd (take (length s - length w) s)) \<le> length (take (length s - length w) s)"
        by simp
      with Some False show ?thesis by (subst trimEnd.simps) simp
    qed
  qed
qed

lemma trim_length: "length (trim s) \<le> length s"
  unfolding trim_def using trimEnd_length [of "trimStart s"] trimStart_length [of s] by simp

lemma parse_string_body_length:
  "parse_string_body cs = Some (s, rest) \<Longrightarrow> length s + length rest < length cs"
proof (induction cs arbitrary: s rest rule: parse_string_body.induct)
  case 1
  then show ?case by simp
next
  case (2 c cs)
  show ?case
  proof (cases "c = CHR 0x22")
    case True
    with 2(4) show ?thesis by simp
  next
    case notq: False
    show ?thesis
    proof (cases "c = CHR 0x5C")
      case True
      with notq 2(4) obtain e r where cs: "cs = e # r"
        by (cases cs) auto
      show ?thesis
      proof (cases "e = CHR ''u''")
        case u: True
        with True notq cs 2(4) obtain bs rest0 s0 where
          un: "unescape_u r = Some (bs, rest0)" and
          body: "parse_string_body rest0 = Some (s0, rest)" and s: "s = bs @ s0"
          by (auto split: option.splits)
        from 2(1) [OF notq True cs u un refl body]
        have "length s0 + length rest < length rest0" .
        with unescape_u_length [OF un] s cs show ?thesis by simp
      next
        case nu: False
        with True notq cs 2(4) obtain ch s0 where
          esc: "simple_escape e = Some ch" and
          body: "parse_string_body r = Some (s0, rest)" and s: "s = ch # s0"
          by (auto split: option.splits)
        from 2(2) [OF notq True cs nu esc body]
        have "length s0 + length rest < length r" .
        with s cs show ?thesis by simp
      qed
    next
      case False
      with notq 2(4) obtain s0 where
        ctl: "\<not> (of_char c :: nat) < 0x20" and
        body: "parse_string_body cs = Some (s0, rest)" and s: "s = c # s0"
        by (auto split: option.splits if_splits)
      from 2(3) [OF notq False ctl body] s show ?thesis by simp
    qed
  qed
qed

text \<open>Parsing a text that denotes a string gives a string shorter than the text: the two
  quotes are gone, and no escape denotes more bytes than it is written with.\<close>

lemma parse_value_JStr_length:
  assumes "parse_value t = Some (JStr s, rest)"
  shows "length s < length t"
proof -
  from assms obtain cs where sk: "skip_ws t = CHR 0x22 # cs"
    and body: "parse_string_body cs = Some (s, rest)"
    by (subst (asm) parse_value.simps)
       (auto split: list.splits if_splits option.splits)
  from parse_string_body_length [OF body] skip_ws_Cons_length [OF sk]
  show ?thesis by simp
qed

lemma JSON_parse_JStr_length: "JSON_parse t = Some (JStr s) \<Longrightarrow> length s < length t"
  by (auto simp: JSON_parse_def split: option.splits if_splits dest: parse_value_JStr_length)

text \<open>Whatever the descent returns, it has read some text: the length tests in
  \<open>parse_elements\<close> and \<open>parse_members\<close> always succeed.\<close>

lemma parse_int_part_length:
  "parse_int_part s = Some (ip, s2) \<Longrightarrow> length s2 < length s"
  using length_dropWhile_le [of is_digit "tl s"]
  by (auto simp: parse_int_part_def split: list.splits if_splits)

lemma parse_frac_part_length:
  "parse_frac_part s = Some (fd, s3) \<Longrightarrow> length s3 \<le> length s"
  using length_dropWhile_le [of is_digit "tl s"]
  by (auto simp: parse_frac_part_def split: list.splits if_splits)

lemma parse_exp_digits_length:
  "parse_exp_digits neg r = Some (e, s4) \<Longrightarrow> length s4 \<le> length r"
  using length_dropWhile_le [of is_digit r]
  by (auto simp: parse_exp_digits_def split: if_splits)

lemma parse_exp_part_length:
  "parse_exp_part s = Some (e, s4) \<Longrightarrow> length s4 \<le> length s"
  by (auto simp: parse_exp_part_def split: list.splits if_splits
           dest!: parse_exp_digits_length)

lemma parse_unsigned_length:
  assumes "parse_unsigned s = Some (x, rest)"
  shows "length rest < length s"
proof -
  from assms obtain ip s2 fd s3 ex where
    "parse_int_part s = Some (ip, s2)" "parse_frac_part s2 = Some (fd, s3)"
    "parse_exp_part s3 = Some (ex, rest)"
    by (auto simp: parse_unsigned_def split: option.splits)
  from parse_int_part_length [OF this(1)] parse_frac_part_length [OF this(2)]
    parse_exp_part_length [OF this(3)]
  show ?thesis by simp
qed

lemma parse_number_length:
  "parse_number s = Some (x, rest) \<Longrightarrow> length rest < length s"
  by (auto simp: parse_number_def split: list.splits if_splits option.splits
           dest!: parse_unsigned_length)

lemma parse_consumes:
  "parse_value s = Some (v, rest) \<Longrightarrow> length rest < length s"
  "parse_elements s acc = Some (xs, rest1) \<Longrightarrow> length rest1 < length s"
  "parse_members s kacc = Some (kvs, rest2) \<Longrightarrow> length rest2 < length s"
proof (induction s and s acc and s kacc arbitrary: v rest and xs rest1 and kvs rest2
       rule: parse_value_parse_elements_parse_members.induct)
  case (1 s)
  from "1.prems" obtain c cs where sk: "skip_ws s = c # cs"
    by (subst (asm) parse_value.simps) (auto split: list.splits)
  note len = skip_ws_Cons_length [OF sk]
  show ?case
  proof (cases "c = CHR ''{''")
    case True
    with "1.prems" sk obtain d ds where sk2: "skip_ws cs = d # ds"
      by (subst (asm) parse_value.simps) (auto split: list.splits)
    show ?thesis
    proof (cases "d = CHR ''}''")
      case T2: True
      with True sk sk2 "1.prems" have "rest = ds"
        by (subst (asm) parse_value.simps) simp
      with skip_ws_Cons_length [OF sk2] len show ?thesis by simp
    next
      case F2: False
      with True sk sk2 "1.prems" obtain kvs where "parse_members cs [] = Some (kvs, rest)"
        by (subst (asm) parse_value.simps) (auto split: option.splits)
      from "1.IH"(1) [OF sk True sk2 F2 this] len show ?thesis by simp
    qed
  next
    case nb: False
    show ?thesis
    proof (cases "c = CHR ''[''")
      case True
      with nb "1.prems" sk obtain d ds where sk2: "skip_ws cs = d # ds"
        by (subst (asm) parse_value.simps) (auto split: list.splits)
      show ?thesis
      proof (cases "d = CHR '']''")
        case T2: True
        with nb True sk sk2 "1.prems" have "rest = ds"
          by (subst (asm) parse_value.simps) simp
        with skip_ws_Cons_length [OF sk2] len show ?thesis by simp
      next
        case F2: False
        with nb True sk sk2 "1.prems" obtain xs where "parse_elements cs [] = Some (xs, rest)"
          by (subst (asm) parse_value.simps) (auto split: option.splits)
        from "1.IH"(2) [OF sk nb True sk2 F2 this] len show ?thesis by simp
      qed
    next
      case na: False
      from nb na sk "1.prems" len show ?thesis
        by (subst (asm) parse_value.simps)
           (auto split: option.splits if_splits
                 dest!: parse_string_body_length parse_number_length)
    qed
  qed
next
  case (2 s acc)
  from "2.prems" obtain v rest d ds where
    pv: "parse_value s = Some (v, rest)" and lt: "length rest < length s"
    and sk: "skip_ws rest = d # ds"
    by (subst (asm) parse_elements.simps)
       (auto split: option.splits if_splits list.splits)
  note len = skip_ws_Cons_length [OF sk]
  show ?case
  proof (cases "d = CHR '',''")
    case True
    with pv lt sk "2.prems" have "parse_elements ds (acc @ [v]) = Some (xs, rest1)"
      by (subst (asm) parse_elements.simps) simp
    from "2.IH"(2) [OF pv refl _ sk True this] lt len show ?thesis by simp
  next
    case False
    with pv lt sk "2.prems" have "rest1 = ds"
      by (subst (asm) parse_elements.simps) (auto split: if_splits)
    with lt len show ?thesis by simp
  qed
next
  case (3 s kacc)
  from "3.prems" obtain q qs k rest col vs v rest' d ds where
    sk1: "skip_ws s = q # qs" and q: "\<not> q \<noteq> CHR 0x22"
    and body: "parse_string_body qs = Some (k, rest)"
    and sk2: "skip_ws rest = col # vs"
    and guard: "\<not> (col \<noteq> CHR '':'' \<or> \<not> length vs < length s)"
    and pv: "parse_value vs = Some (v, rest')" and lt: "\<not> \<not> length rest' < length vs"
    and sk3: "skip_ws rest' = d # ds"
    by (subst (asm) parse_members.simps)
       (auto split: option.splits if_splits list.splits)
  note len = skip_ws_Cons_length [OF sk3]
  show ?case
  proof (cases "d = CHR '',''")
    case True
    with sk1 q body sk2 guard pv lt sk3 "3.prems"
    have "parse_members ds (obj_set kacc k v) = Some (kvs, rest2)"
      by (subst (asm) parse_members.simps) simp
    from "3.IH"(2) [OF sk1 q body refl sk2 guard pv refl lt sk3 True this] guard lt len
    show ?thesis by simp
  next
    case False
    with sk1 q body sk2 guard pv lt sk3 "3.prems" have "rest2 = ds"
      by (subst (asm) parse_members.simps) (auto split: if_splits)
    with guard lt len show ?thesis by simp
  qed
qed

section \<open>The Value Normalizer\<close>

text \<open>The measure under which the normalizer's recursive call is on a smaller value:
  a string counts its length plus one, any other value zero.\<close>

definition isEmptyValue_measure :: "jsval \<Rightarrow> nat" where
  "isEmptyValue_measure val = (case val of JStr s \<Rightarrow> Suc (length s) | _ \<Rightarrow> 0)"

lemma isEmptyValue_call_smaller:
  assumes "JSON_parse (trim s) = Some parsed"
  shows "isEmptyValue_measure parsed < isEmptyValue_measure (JStr s)"
proof (cases parsed)
  case (JStr s')
  with assms have "length s' < length (trim s)" by (simp add: JSON_parse_JStr_length)
  with trim_length [of s] JStr show ?thesis by (simp add: isEmptyValue_measure_def)
qed (simp_all add: isEmptyValue_measure_def)

text \<open>\<^verbatim>\<open>isEmptyValue\<close> (Glpi.node.ts, lines 74 to 91). A string that parses as JSON
  passes the parsed value to the function again; a string that does not parse falls
  through the two tests on arrays and objects and is not empty.\<close>

function isEmptyValue :: "jsval \<Rightarrow> bool" where
  "isEmptyValue val =
     (if val = JUndefined \<or> val = JNull \<or> val = JStr [] then True
      else
        (case val of
           JStr s \<Rightarrow>
             if trim s = ''{}'' \<or> trim s = ''[]'' then True
             else
               (case JSON_parse (trim s) of
                  Some parsed \<Rightarrow> isEmptyValue parsed
                | None \<Rightarrow> False)
         | JArr xs \<Rightarrow>
             length xs = 0 \<or> list_all (\<lambda>v. is_object v \<and> keys_length v = 0) xs
         | JObj kvs \<Rightarrow> length kvs = 0
         | _ \<Rightarrow> False))"
  by pat_completeness auto
termination
  by (relation "measure isEmptyValue_measure") (simp_all add: isEmptyValue_call_smaller)

declare isEmptyValue.simps [simp del]

text \<open>The earlier drafts (Glpi.node.ts, lines 316 to 331, and part_000, lines 46 to 61)
  differ in the first test only: \<^verbatim>\<open>val === 0\<close> is empty too.\<close>

function isEmptyValue_draft :: "jsval \<Rightarrow> bool" where
  "isEmptyValue_draft val =
     (if val = JUndefined \<or> val = JNull \<or> val = JStr [] \<or> val = JNum 0 then True
      else
        (case val of
           JStr s \<Rightarrow>
             if trim s = ''{}'' \<or> trim s = ''[]'' then True
             else
               (case JSON_parse (trim s) of
                  Some parsed \<Rightarrow> isEmptyValue_draft parsed
                | None \<Rightarrow> False)
         | JArr xs \<Rightarrow>
             length xs = 0 \<or> list_all (\<lambda>v. is_object v \<and> keys_length v = 0) xs
         | JObj kvs \<Rightarrow> length kvs = 0
         | _ \<Rightarrow> False))"
  by pat_completeness auto
termination
  by (relation "measure isEmptyValue_measure") (simp_all add: isEmptyValue_call_smaller)

declare isEmptyValue_draft.simps [simp del]

section \<open>Strings of the dispatcher\<close>

text \<open>\<^verbatim>\<open>parts.join(sep)\<close>.\<close>

fun join :: "string \<Rightarrow> string list \<Rightarrow> string" where
  "join sep [] = []"
| "join sep [x] = x"
| "join sep (x # y # ys) = x @ sep @ join sep (y # ys)"

text \<open>\<^verbatim>\<open>s.split(sep)\<close> for a separator of one character: the pieces between the
  separators, never an empty array.\<close>

function split :: "char \<Rightarrow> string \<Rightarrow> string list" where
  "split sep s =
     (case dropWhile (\<lambda>c. c \<noteq> sep) s of
        [] \<Rightarrow> [takeWhile (\<lambda>c. c \<noteq> sep) s]
      | _ # r \<Rightarrow> takeWhile (\<lambda>c. c \<noteq> sep) s # split sep r)"
  by pat_completeness auto
termination
proof (relation "measure (\<lambda>(sep, s). length s)")
  fix sep :: char and s :: string and x r
  assume "dropWhile (\<lambda>c. c \<noteq> sep) s = x # r"
  with length_dropWhile_le [of "\<lambda>c. c \<noteq> sep" s]
  show "((sep, r), (sep, s)) \<in> measure (\<lambda>(sep, s). length s)" by simp
qed simp

declare split.simps [simp del]

text \<open>\<^verbatim>\<open>parts[n] || ''\<close>: the piece at an index, the empty string when there is none.\<close>

definition part_or_empty :: "string list \<Rightarrow> nat \<Rightarrow> string" where
  "part_or_empty parts n = (if n < length parts then parts ! n else [])"

definition startsWith :: "string \<Rightarrow> string \<Rightarrow> bool" where
  "startsWith s p = (take (length p) s = p)"

text \<open>\<^verbatim>\<open>s.replace(/\/+$/, '')\<close>: the slashes at the end are removed.\<close>

definition strip_trailing_slashes :: "string \<Rightarrow> string" where
  "strip_trailing_slashes s = rev (dropWhile (\<lambda>c. c = CHR ''/'') (rev s))"

text \<open>The regular expression \<^verbatim>\<open>\{([^}]+)\}\<close> tried on the text after an opening
  brace: the longest run of characters other than the closing brace, which must not be
  empty and must be followed by a closing brace. The result is the name and the text
  after the token.\<close>

definition match_token :: "string \<Rightarrow> (string \<times> string) option" where
  "match_token cs =
     (if takeWhile (\<lambda>c. c \<noteq> CHR ''}'') cs = [] \<or> dropWhile (\<lambda>c. c \<noteq> CHR ''}'') cs = []
      then None
      else Some (takeWhile (\<lambda>c. c \<noteq> CHR ''}'') cs, tl (dropWhile (\<lambda>c. c \<noteq> CHR ''}'') cs)))"

lemma match_token_length: "match_token cs = Some (nm, rest) \<Longrightarrow> length rest < length cs"
  using length_dropWhile_le [of "\<lambda>c. c \<noteq> CHR ''}''" cs]
  by (cases "dropWhile (\<lambda>c. c \<noteq> CHR ''}'') cs") (auto simp: match_token_def split: if_splits)

text \<open>\<^verbatim>\<open>path.replace(/\{([^}]+)\}/g, f)\<close>: every match, from the left and without
  overlap, is replaced by what the callback returns for the matched text and the name.\<close>

function replace_tokens :: "(string \<Rightarrow> string \<Rightarrow> string) \<Rightarrow> string \<Rightarrow> string" where
  "replace_tokens f [] = []"
| "replace_tokens f (c # cs) =
     (if c = CHR ''{'' then
        (case match_token cs of
           Some (nm, rest) \<Rightarrow> f (c # nm @ ''}'') nm @ replace_tokens f rest
         | None \<Rightarrow> c # replace_tokens f cs)
      else c # replace_tokens f cs)"
  by pat_completeness auto
termination
  by (relation "measure (\<lambda>(f, s). length s)") (auto dest: match_token_length)

text \<open>\<^verbatim>\<open>path.match(/\{[^}]+\}/g)\<close>: the matched texts in order; the empty list
  stands for \<^verbatim>\<open>null\<close>.\<close>

function match_tokens :: "string \<Rightarrow> string list" where
  "match_tokens [] = []"
| "match_tokens (c # cs) =
     (if c = CHR ''{'' then
        (case match_token cs of
           Some (nm, rest) \<Rightarrow> (c # nm @ ''}'') # match_tokens rest
         | None \<Rightarrow> match_tokens cs)
      else match_tokens cs)"
  by pat_completeness auto
termination
  by (relation "measure length") (auto dest: match_token_length)


text \<open>\<^verbatim>\<open>encodeURIComponent\<close>: letters, digits and \<^verbatim>\<open>- _ . ! ~ * ' ( )\<close> stay, every
  other byte becomes a percent sign and two hexadecimal digits. An unpaired surrogate
  raises URIError (\<open>None\<close>).\<close>

definition uri_unreserved :: "char \<Rightarrow> bool" where
  "uri_unreserved c =
     (c \<in> set (''ABCDEFGHIJKLMNOPQRSTUVWXYZabcdefghijklmnopqrstuvwxyz0123456789-_.!~*()''
         @ [CHR 0x27]))"

definition hex_digit :: "nat \<Rightarrow> char" where
  "hex_digit n = ''0123456789ABCDEF'' ! (n mod 16)"

definition percent :: "char \<Rightarrow> string" where
  "percent c = [CHR ''%'', hex_digit (of_char c div 16), hex_digit (of_char c)]"

fun has_surrogate :: "string \<Rightarrow> bool" where
  "has_surrogate (a # b # cs) =
     ((a = CHR 0xED \<and> (0xA0 :: nat) \<le> of_char b) \<or> has_surrogate (b # cs))"
| "has_surrogate _ = False"

definition uri_encode_char :: "char \<Rightarrow> string" where
  "uri_encode_char c = (if uri_unreserved c then [c] else percent c)"

definition encodeURIComponent :: "string \<Rightarrow> string option" where
  "encodeURIComponent s =
     (if has_surrogate s then None else Some (concat (map uri_encode_char s)))"

text \<open>\<^verbatim>\<open>new URLSearchParams(entries).toString()\<close>: the form-urlencoded serializer.
  Letters, digits and \<^verbatim>\<open>* - . _\<close> stay, a space becomes a plus sign, every other byte
  is percent-encoded; an unpaired surrogate is first replaced by U+FFFD.\<close>

fun to_usv :: "string \<Rightarrow> string" where
  "to_usv (a # b # c # cs) =
     (if a = CHR 0xED \<and> (0xA0 :: nat) \<le> of_char b
      then [CHR 0xEF, CHR 0xBF, CHR 0xBD] @ to_usv cs
      else a # to_usv (b # c # cs))"
| "to_usv cs = cs"

definition form_unreserved :: "char \<Rightarrow> bool" where
  "form_unreserved c =
     (c \<in> set ''ABCDEFGHIJKLMNOPQRSTUVWXYZabcdefghijklmnopqrstuvwxyz0123456789*-._'')"

definition form_encode_char :: "char \<Rightarrow> string" where
  "form_encode_char c =
     (if form_unreserved c then [c] else if c = CHR 0x20 then ''+'' else percent c)"

definition form_encode :: "string \<Rightarrow> string" where
  "form_encode s = concat (map form_encode_char (to_usv s))"

definition URLSearchParams_toString :: "(string \<times> string) list \<Rightarrow> string" where
  "URLSearchParams_toString entries =
     join ''&'' (map (\<lambda>(k, v). form_encode k @ ''='' @ form_encode v) entries)"

text \<open>\<^verbatim>\<open>String(v)\<close>, also what a template literal and \<^verbatim>\<open>encodeURIComponent\<close> apply
  to their argument. How a number is written is left to the parameter \<open>nts\<close>.\<close>

fun ToString :: "(rat \<Rightarrow> string) \<Rightarrow> jsval \<Rightarrow> string" where
  "ToString nts JUndefined = ''undefined''"
| "ToString nts JNull = ''null''"
| "ToString nts (JBool b) = (if b then ''true'' else ''false'')"
| "ToString nts (JNum x) = nts x"
| "ToString nts (JStr s) = s"
| "ToString nts (JArr xs) =
     join '','' (map (\<lambda>x. if x = JNull \<or> x = JUndefined then [] else ToString nts x) xs)"
| "ToString nts (JObj kvs) = ''[object Object]''"

text \<open>\<^verbatim>\<open>!v\<close> is false for a truthy value.\<close>

fun truthy :: "jsval \<Rightarrow> bool" where
  "truthy JUndefined = False"
| "truthy JNull = False"
| "truthy (JBool b) = b"
| "truthy (JNum x) = (x \<noteq> 0)"
| "truthy (JStr s) = (s \<noteq> [])"
| "truthy (JArr xs) = True"
| "truthy (JObj kvs) = True"

section \<open>The data of the node\<close>

text \<open>An error thrown: \<^verbatim>\<open>NodeOperationError\<close>, or any other \<^verbatim>\<open>Error\<close> (a failed
  HTTP call, a parameter that does not exist in this context, a TypeError), each with
  its message.\<close>

datatype error = NodeOperationError string | OtherError string

fun message :: "error \<Rightarrow> string" where
  "message (NodeOperationError m) = m"
| "message (OtherError m) = m"

text \<open>A field descriptor, as the index and the dispatcher read it:
  \<^verbatim>\<open>prop.name\<close>, \<^verbatim>\<open>prop.routing?.send?.type\<close>, \<^verbatim>\<open>prop.routing.send.property\<close> and
  \<^verbatim>\<open>prop.displayOptions?.show?.operation\<close> when that is an array (\<open>None\<close> when the
  descriptor declares no operations).\<close>

record INodeProperties =
  name :: string
  send_type :: "string option"
  send_property :: "string option"
  show_operation :: "string list option"

record credentials =
  glpiUrl :: string
  username :: string
  password :: string
  clientId :: string
  clientSecret :: string
  scope :: string
  ignoreSSLIssues :: bool

text \<open>\<^verbatim>\<open>IHttpRequestOptions\<close>, with the fields the node sets.\<close>

record http_request =
  http_method :: string
  url :: string
  headers :: "(string \<times> string) list"
  body :: "jsval option"
  qs :: "(string \<times> jsval) list option"
  json :: bool
  skipSslCertificateValidation :: bool

text \<open>An output record \<^verbatim>\<open>{ json: v }\<close>.\<close>

datatype INodeExecutionData = Json jsval

text \<open>
  What \<^verbatim>\<open>this\<close> gives the node during one execution: the number of input items,
  \<^verbatim>\<open>getNodeParameter(name, i)\<close>, the credential record, \<^verbatim>\<open>helpers.httpRequest\<close> and
  \<^verbatim>\<open>continueOnFail()\<close>. An HTTP call answers with a body or throws; the answer may
  depend on the requests issued before it, which the model keeps as a list, oldest
  first. \<open>numberToString\<close> is how the platform writes a number.
\<close>

record env =
  items_length :: nat
  getNodeParameter :: "string \<Rightarrow> nat \<Rightarrow> error + jsval"
  getCredentials :: credentials
  httpRequest :: "http_request list \<Rightarrow> http_request \<Rightarrow> error + jsval"
  continueOnFail :: bool
  numberToString :: "rat \<Rightarrow> string"

section \<open>The Parameter Classifier\<close>

text \<open>The test both the index and the scanning draft apply first: the descriptor is
  routed to the body, the query or a header.\<close>

definition routable :: "INodeProperties \<Rightarrow> bool" where
  "routable prop =
     (case send_type prop of
        None \<Rightarrow> False
      | Some t \<Rightarrow> t \<noteq> [] \<and> t \<in> set [''body'', ''query'', ''header''])"

text \<open>\<^verbatim>\<open>operationPropertiesMap\<close> (Glpi.node.ts, lines 56 to 69): every routable
  descriptor is pushed onto the list of each operation it names. A descriptor whose
  operations are not an array is skipped.\<close>

definition index_op ::
  "INodeProperties \<Rightarrow> string \<Rightarrow> (string \<rightharpoonup> INodeProperties list) \<Rightarrow> (string \<rightharpoonup> INodeProperties list)" where
  "index_op prop op m = m(op \<mapsto> (case m op of None \<Rightarrow> [] | Some ps \<Rightarrow> ps) @ [prop])"

definition index_prop ::
  "INodeProperties \<Rightarrow> (string \<rightharpoonup> INodeProperties list) \<Rightarrow> (string \<rightharpoonup> INodeProperties list)" where
  "index_prop prop m =
     (if \<not> routable prop then m
      else
        (case show_operation prop of
           None \<Rightarrow> m
         | Some ops \<Rightarrow> fold (index_op prop) ops m))"

definition operationPropertiesMap ::
  "INodeProperties list \<Rightarrow> (string \<rightharpoonup> INodeProperties list)" where
  "operationPropertiesMap properties = fold index_prop properties Map.empty"

text \<open>\<^verbatim>\<open>operationPropertiesMap.get(operation) ?? []\<close> (line 208).\<close>

definition operationProps :: "INodeProperties list \<Rightarrow> string \<Rightarrow> INodeProperties list" where
  "operationProps properties operation =
     (case operationPropertiesMap properties operation of None \<Rightarrow> [] | Some ps \<Rightarrow> ps)"

text \<open>The earlier draft (Glpi.node.ts, lines 423 to 432, and part_000, lines 146 to 150)
  scans all descriptors for each item and skips one only when its operations are an
  array that does not include the operation.\<close>

definition operationProps_draft :: "INodeProperties list \<Rightarrow> string \<Rightarrow> INodeProperties list" where
  "operationProps_draft properties operation =
     filter (\<lambda>prop. routable prop \<and>
                     \<not> (case show_operation prop of
                          None \<Rightarrow> False
                        | Some supported \<Rightarrow> operation \<notin> set supported))
       properties"

section \<open>The Token Acquirer\<close>

text \<open>\<^verbatim>\<open>tokenBodyEntries\<close> (lines 132 to 140).\<close>

definition tokenBodyEntries :: "credentials \<Rightarrow> (string \<times> string) list" where
  "tokenBodyEntries c =
     (let e0 = [(''grant_type'', ''password''),
                (''username'', username c),
                (''password'', password c),
                (''scope'', if scope c \<noteq> [] then scope c else ''api'')];
          e1 = (if clientId c \<noteq> [] then obj_set e0 ''client_id'' (clientId c) else e0);
          e2 = (if clientSecret c \<noteq> [] then obj_set e1 ''client_secret'' (clientSecret c) else e1)
      in e2)"

definition baseUrl :: "credentials \<Rightarrow> string" where
  "baseUrl c = strip_trailing_slashes (glpiUrl c)"

text \<open>The request for the token (lines 142 to 149).\<close>

definition tokenRequest :: "credentials \<Rightarrow> http_request" where
  "tokenRequest c =
     \<lparr> http_method = ''POST'',
       url = baseUrl c @ ''/api.php/token'',
       headers = [(''Content-Type'', ''application/x-www-form-urlencoded'')],
       body = Some (JStr (URLSearchParams_toString (tokenBodyEntries c))),
       qs = None,
       json = True,
       skipSslCertificateValidation = ignoreSSLIssues c \<rparr>"

text \<open>\<^verbatim>\<open>tokenResponse.access_token\<close>: reading a property of \<^verbatim>\<open>null\<close> or
  \<^verbatim>\<open>undefined\<close> throws a TypeError; a value that is not an object has no such
  property.\<close>

fun get_property :: "jsval \<Rightarrow> string \<Rightarrow> error + jsval" where
  "get_property JUndefined k =
     Inl (OtherError (''Cannot read properties of undefined (reading '' @ [CHR 0x27] @ k @ [CHR 0x27] @ '')''))"
| "get_property JNull k =
     Inl (OtherError (''Cannot read properties of null (reading '' @ [CHR 0x27] @ k @ [CHR 0x27] @ '')''))"
| "get_property (JObj kvs) k = Inr (case map_of kvs k of None \<Rightarrow> JUndefined | Some v \<Rightarrow> v)"
| "get_property _ k = Inr JUndefined"

section \<open>The Path Resolver\<close>

text \<open>The body of the callback's \<^verbatim>\<open>try\<close> (line 180): the parameter is read and
  encoded; \<open>None\<close> when either throws.\<close>

definition path_param :: "env \<Rightarrow> nat \<Rightarrow> string \<Rightarrow> string option" where
  "path_param e i paramName =
     (case getNodeParameter e paramName i of
        Inl err \<Rightarrow> None
      | Inr v \<Rightarrow> encodeURIComponent (ToString (numberToString e) v))"

text \<open>The callback (lines 178 to 184): the encoded value, or the placeholder itself.\<close>

definition path_callback :: "env \<Rightarrow> nat \<Rightarrow> string \<Rightarrow> string \<Rightarrow> string" where
  "path_callback e i placeholder paramName =
     (case path_param e i paramName of Some s \<Rightarrow> s | None \<Rightarrow> placeholder)"

text \<open>Lines 178 to 194: substitution, then the scan for what is left.\<close>

definition resolve_path :: "env \<Rightarrow> nat \<Rightarrow> string \<Rightarrow> error + string" where
  "resolve_path e i path0 =
     (let path = replace_tokens (path_callback e i) path0;
          unresolved = match_tokens path
      in if unresolved \<noteq> []
         then Inl (NodeOperationError
                (''Missing required path parameter(s): '' @ join '', '' unresolved))
         else Inr path)"

section \<open>The Request Dispatcher\<close>

definition validMethods :: "string list" where
  "validMethods = [''GET'', ''POST'', ''PUT'', ''PATCH'', ''DELETE'']"

text \<open>What the loop over the descriptors of the operation builds (lines 209 to 237):
  the body, the query and the headers.\<close>

record routed =
  bodyData :: "(string \<times> jsval) list"
  queryParams :: "(string \<times> jsval) list"
  requestHeaders :: "(string \<times> string) list"

text \<open>One descriptor (lines 213 to 236). Reading its type off a descriptor that has
  none throws before the \<^verbatim>\<open>try\<close>; a NodeOperationError from the lookup is thrown
  again, any other error of the lookup is swallowed.\<close>

definition route_prop :: "env \<Rightarrow> nat \<Rightarrow> INodeProperties \<Rightarrow> routed \<Rightarrow> error + routed" where
  "route_prop e i prop r =
     (case send_type prop of
        None \<Rightarrow> Inl (OtherError ''Cannot read properties of undefined'')
      | Some sendType \<Rightarrow>
          (case getNodeParameter e (name prop) i of
             Inl err \<Rightarrow>
               (case err of
                  NodeOperationError m \<Rightarrow> Inl err
                | OtherError m \<Rightarrow> Inr r)
           | Inr v \<Rightarrow>
               if isEmptyValue v then Inr r
               else
                 (let key = (case send_property prop of Some k \<Rightarrow> k | None \<Rightarrow> name prop) in
                  if sendType = ''body'' then Inr (r\<lparr>bodyData := obj_set (bodyData r) key v\<rparr>)
                  else if sendType = ''query'' then
                    Inr (r\<lparr>queryParams := obj_set (queryParams r) key v\<rparr>)
                  else
                    Inr (r\<lparr>requestHeaders :=
                           obj_set (requestHeaders r) key (ToString (numberToString e) v)\<rparr>))))"

fun route_props :: "env \<Rightarrow> nat \<Rightarrow> INodeProperties list \<Rightarrow> routed \<Rightarrow> error + routed" where
  "route_props e i [] r = Inr r"
| "route_props e i (prop # props) r =
     (case route_prop e i prop r of
        Inl err \<Rightarrow> Inl err
      | Inr r' \<Rightarrow> route_props e i props r')"

text \<open>Lines 239 to 248: the content type and the body for the methods that carry one,
  the query when it is not empty.\<close>

definition finish_request :: "string \<Rightarrow> string \<Rightarrow> bool \<Rightarrow> routed \<Rightarrow> http_request" where
  "finish_request method fullUrl skipSsl r =
     (let carries = (method \<in> set [''POST'', ''PUT'', ''PATCH''])
      in \<lparr> http_method = method,
           url = fullUrl,
           headers = (if carries
                      then obj_set (requestHeaders r) ''Content-Type'' ''application/json''
                      else requestHeaders r),
           body = (if carries \<and> length (bodyData r) > 0 then Some (JObj (bodyData r)) else None),
           qs = (if length (queryParams r) > 0 then Some (queryParams r) else None),
           json = True,
           skipSslCertificateValidation = skipSsl \<rparr>)"

text \<open>Lines 252 to 256.\<close>

definition normalize_response :: "jsval \<Rightarrow> INodeExecutionData list" where
  "normalize_response response =
     (case response of
        JArr xs \<Rightarrow> map Json xs
      | _ \<Rightarrow> [Json response])"

text \<open>Lines 164 to 166 and 174: the operation is split at its spaces; the first piece
  is the method, the second (or the empty string) the path, which gets a leading slash
  when it has none.\<close>

definition operation_method :: "string \<Rightarrow> string" where
  "operation_method operation = part_or_empty (split (CHR 0x20) operation) 0"

definition operation_path :: "string \<Rightarrow> string" where
  "operation_path operation =
     (let pathPart = part_or_empty (split (CHR 0x20) operation) 1
      in if startsWith pathPart ''/'' then pathPart else ''/'' @ pathPart)"

text \<open>
  The body of the \<^verbatim>\<open>try\<close> for item \<open>i\<close> (lines 161 to 256), given the properties the
  builder generated, the token and the requests issued so far. The result is what the
  item adds to the output, or the error thrown, with the requests issued up to then.
  A value of \<^verbatim>\<open>operation\<close> that is not a string has no \<^verbatim>\<open>split\<close>.
\<close>

definition process_item ::
  "INodeProperties list \<Rightarrow> env \<Rightarrow> jsval \<Rightarrow> nat \<Rightarrow> http_request list
     \<Rightarrow> (error + INodeExecutionData list) \<times> http_request list" where
  "process_item properties e accessToken i sent =
     (case getNodeParameter e ''operation'' i of
        Inl err \<Rightarrow> (Inl err, sent)
      | Inr opv \<Rightarrow>
          (case opv of
             JStr operation \<Rightarrow>
               if operation_method operation \<notin> set validMethods
               then (Inl (NodeOperationError
                       (''Invalid HTTP method parsed from operation: '' @ [CHR 0x22]
                          @ operation_method operation @ [CHR 0x22])), sent)
               else
                 (case resolve_path e i (operation_path operation) of
                    Inl err \<Rightarrow> (Inl err, sent)
                  | Inr path \<Rightarrow>
                      (case route_props e i (operationProps properties operation)
                              \<lparr> bodyData = [], queryParams = [],
                                requestHeaders =
                                  [(''Accept'', ''application/json''),
                                   (''Authorization'',
                                    ''Bearer '' @ ToString (numberToString e) accessToken)] \<rparr> of
                         Inl err \<Rightarrow> (Inl err, sent)
                       | Inr r \<Rightarrow>
                           (let requestOptions =
                                  finish_request (operation_method operation)
                                    (baseUrl (getCredentials e) @ ''/api.php'' @ path)
                                    (ignoreSSLIssues (getCredentials e)) r
                            in (case httpRequest e sent requestOptions of
                                  Inl err \<Rightarrow> (Inl err, sent @ [requestOptions])
                                | Inr response \<Rightarrow>
                                    (Inr (normalize_response response),
                                     sent @ [requestOptions])))))
           | _ \<Rightarrow> (Inl (OtherError ''operation.split is not a function''), sent)))"

text \<open>The loop over the items with its \<^verbatim>\<open>catch\<close> (lines 159 to 266).\<close>

fun item_loop ::
  "INodeProperties list \<Rightarrow> env \<Rightarrow> jsval \<Rightarrow> nat list \<Rightarrow> INodeExecutionData list
     \<Rightarrow> http_request list \<Rightarrow> (error + INodeExecutionData list) \<times> http_request list" where
  "item_loop properties e accessToken [] returnData sent = (Inr returnData, sent)"
| "item_loop properties e accessToken (i # is) returnData sent =
     (case process_item properties e accessToken i sent of
        (Inl err, sent') \<Rightarrow>
          if continueOnFail e
          then item_loop properties e accessToken is
                 (returnData @ [Json (JObj [(''error'', JStr (message err))])]) sent'
          else (Inl err, sent')
      | (Inr records, sent') \<Rightarrow>
          item_loop properties e accessToken is (returnData @ records) sent')"

text \<open>
  \<^verbatim>\<open>execute\<close> (lines 117 to 269): the token is requested once, before the loop and
  outside its \<^verbatim>\<open>try\<close>. The result is the output (the one array the node returns) or
  the error thrown, with every request issued.
\<close>

definition execute ::
  "INodeProperties list \<Rightarrow> env \<Rightarrow> (error + INodeExecutionData list) \<times> http_request list" where
  "execute properties e =
     (let tokenReq = tokenRequest (getCredentials e) in
      case httpRequest e [] tokenReq of
        Inl err \<Rightarrow> (Inl err, [tokenReq])
      | Inr tokenResponse \<Rightarrow>
          (case get_property tokenResponse ''access_token'' of
             Inl err \<Rightarrow> (Inl err, [tokenReq])
           | Inr accessToken \<Rightarrow>
               if \<not> truthy accessToken
               then (Inl (NodeOperationError
                       ''OAuth2 token request succeeded but returned no access_token. Check GLPI credentials.''),
                     [tokenReq])
               else item_loop properties e accessToken [0..<items_length e] [] [tokenReq]))"

section \<open>An example execution\<close>

text \<open>One item asks for \<^verbatim>\<open>GET /Ticket\<close> with \<^verbatim>\<open>start = 0\<close>; the token endpoint answers
  with a token and the API with two tickets.\<close>

definition ex_credentials :: credentials where
  "ex_credentials =
     \<lparr> glpiUrl = ''https://glpi.example.com/'', username = ''tech'', password = ''secret'',
       clientId = [], clientSecret = [], scope = ''api'', ignoreSSLIssues = False \<rparr>"

definition ex_start :: INodeProperties where
  "ex_start = \<lparr> name = ''start'', send_type = Some ''query'', send_property = None,
        show_operation = Some [''GET /Ticket''] \<rparr>"

definition ex_params :: "string \<Rightarrow> nat \<Rightarrow> error + jsval" where
  "ex_params nm i =
     (if nm = ''operation'' then Inr (JStr ''GET /Ticket'')
      else if nm = ''start'' then Inr (JNum 0)
      else Inl (OtherError ''Could not get parameter''))"

definition ex_http :: "http_request list \<Rightarrow> http_request \<Rightarrow> error + jsval" where
  "ex_http sent req =
     (if sent = [] then Inr (JObj [(''access_token'', JStr ''tok'')])
      else Inr (JArr [JObj [(''id'', JNum 1)], JObj [(''id'', JNum 2)]]))"

text \<open>How the example writes a number: the decimal digits of an integer.\<close>

fun nat_digits :: "nat \<Rightarrow> string" where
  "nat_digits n = (if n < 10 then [hex_digit n] else nat_digits (n div 10) @ [hex_digit (n mod 10)])"

declare nat_digits.simps [simp del]

definition ex_numberToString :: "rat \<Rightarrow> string" where
  "ex_numberToString x = (if x < 0 then ''-'' else []) @ nat_digits (nat \<lfloor>\<bar>x\<bar>\<rfloor>)"

definition ex_env :: env where
  "ex_env = \<lparr> items_length = 1, getNodeParameter = ex_params, getCredentials = ex_credentials,
      httpRequest = ex_http, continueOnFail = False, numberToString = ex_numberToString \<rparr>"

text \<open>The spec's second scenario: \<^verbatim>\<open>POST /Ticket\<close> with a name, an empty content and
  the root entity \<open>0\<close> as a header. The body holds the name only, and the header is sent.\<close>

definition ex_ticket_fields :: "INodeProperties list" where
  "ex_ticket_fields =
     [\<lparr> name = ''name'', send_type = Some ''body'', send_property = None,
        show_operation = Some [''POST /Ticket''] \<rparr>,
      \<lparr> name = ''content'', send_type = Some ''body'', send_property = None,
        show_operation = Some [''POST /Ticket''] \<rparr>,
      \<lparr> name = ''GLPI-Entity'', send_type = Some ''header'', send_property = None,
        show_operation = Some [''POST /Ticket'', ''GET /Ticket''] \<rparr>]"

definition ex_params_post :: "string \<Rightarrow> nat \<Rightarrow> error + jsval" where
  "ex_params_post nm i =
     (if nm = ''operation'' then Inr (JStr ''POST /Ticket'')
      else if nm = ''name'' then Inr (JStr ''Printer broken'')
      else if nm = ''content'' then Inr (JStr '''')
      else if nm = ''GLPI-Entity'' then Inr (JNum 0)
      else Inl (OtherError ''Could not get parameter''))"

lemma example_post_ticket:
  "map (\<lambda>r. (http_method r, url r, headers r, body r, qs r))
     (snd (execute ex_ticket_fields (ex_env\<lparr>getNodeParameter := ex_params_post\<rparr>))) =
   [(''POST'', ''https://glpi.example.com/api.php/token'',
     [(''Content-Type'', ''application/x-www-form-urlencoded'')],
     Some (JStr ''grant_type=password&username=tech&password=secret&scope=api''), None),
    (''POST'', ''https://glpi.example.com/api.php/Ticket'',
     [(''Accept'', ''application/json''), (''Authorization'', ''Bearer tok''),
      (''GLPI-Entity'', ''0''), (''Content-Type'', ''application/json'')],
     Some (JObj [(''name'', JStr ''Printer broken'')]), None)]"
  by code_simp

section \<open>Properties of the Value Normalizer\<close>



text \<open>In the earlier drafts the number zero, and a string that parses to it, are absent.\<close>

lemma isEmptyValue_draft_zero: "isEmptyValue_draft (JNum 0) \<and> isEmptyValue_draft (JStr ''0'')"
  by code_simp




text \<open>
  C10. \<^verbatim>\<open>isEmptyValue\<close> terminates on every value. Its only recursive call is on the
  result of parsing a trimmed, non-empty string; a text that parses to a string is
  longer than that string; so every call is on a value of smaller measure, and every
  value is in the domain of the function.
\<close>

theorem isEmptyValue_total:
  "(\<forall>parsed val. isEmptyValue_rel parsed val =
       (\<exists>s. val = JStr s \<and> s \<noteq> [] \<and> trim s \<noteq> ''{}'' \<and> trim s \<noteq> ''[]'' \<and>
            JSON_parse (trim s) = Some parsed))
   \<and> (\<forall>t s. JSON_parse t = Some (JStr s) \<longrightarrow> length s < length t)
   \<and> (\<forall>parsed val. isEmptyValue_rel parsed val \<longrightarrow>
         isEmptyValue_measure parsed < isEmptyValue_measure val)
   \<and> (\<forall>val. isEmptyValue_dom val)"
proof (intro conjI allI impI)
  fix parsed val
  show "isEmptyValue_rel parsed val =
       (\<exists>s. val = JStr s \<and> s \<noteq> [] \<and> trim s \<noteq> ''{}'' \<and> trim s \<noteq> ''[]'' \<and>
            JSON_parse (trim s) = Some parsed)"
    by (auto elim!: isEmptyValue_rel.cases intro!: isEmptyValue_rel.intros)
next
  fix t s assume "JSON_parse t = Some (JStr s)"
  then show "length s < length t" by (rule JSON_parse_JStr_length)
next
  fix parsed val assume "isEmptyValue_rel parsed val"
  then show "isEmptyValue_measure parsed < isEmptyValue_measure val"
    by (auto elim!: isEmptyValue_rel.cases simp: isEmptyValue_call_smaller)
next
  fix val
  have "All isEmptyValue_dom"
    by (rule "isEmptyValue.termination" [of "measure isEmptyValue_measure"])
       (simp_all add: isEmptyValue_call_smaller)
  then show "isEmptyValue_dom val" by simp
qed

theorem isEmptyValue_total_witness:
  "JSON_parse (CHR 0x22 # ''[]'' @ [CHR 0x22]) = Some (JStr ''[]'')
   \<and> length ''[]'' < length (CHR 0x22 # ''[]'' @ [CHR 0x22])
   \<and> isEmptyValue_rel (JStr ''[]'') (JStr (CHR 0x22 # ''[]'' @ [CHR 0x22]))
   \<and> isEmptyValue_measure (JStr ''[]'') < isEmptyValue_measure (JStr (CHR 0x22 # ''[]'' @ [CHR 0x22]))
   \<and> isEmptyValue (JStr (CHR 0x22 # ''[]'' @ [CHR 0x22]))"
proof -
  have tr: "trim (CHR 0x22 # ''[]'' @ [CHR 0x22]) = CHR 0x22 # ''[]'' @ [CHR 0x22]"
    by code_simp
  have p: "JSON_parse (CHR 0x22 # ''[]'' @ [CHR 0x22]) = Some (JStr ''[]'')"
    by code_simp
  have r: "isEmptyValue_rel (JStr ''[]'') (JStr (CHR 0x22 # ''[]'' @ [CHR 0x22]))"
    using isEmptyValue_total tr p by simp
  have e: "isEmptyValue (JStr (CHR 0x22 # ''[]'' @ [CHR 0x22]))"
    by code_simp
  from isEmptyValue_total p r e show ?thesis by simp
qed


section \<open>Properties of the Parameter Classifier\<close>

text \<open>What the index holds for an operation: each routable descriptor that names the
  operation, once for each time it names it, in the order of the property list.\<close>

definition index_lookup :: "(string \<rightharpoonup> INodeProperties list) \<Rightarrow> string \<Rightarrow> INodeProperties list" where
  "index_lookup m k = (case m k of None \<Rightarrow> [] | Some ps \<Rightarrow> ps)"

definition entries_for :: "string \<Rightarrow> INodeProperties \<Rightarrow> INodeProperties list" where
  "entries_for operation prop =
     (if routable prop
      then (case show_operation prop of
              None \<Rightarrow> []
            | Some ops \<Rightarrow> replicate (count_list ops operation) prop)
      else [])"

lemma index_lookup_index_op:
  "index_lookup (index_op prop op m) k = index_lookup m k @ (if op = k then [prop] else [])"
  by (simp add: index_lookup_def index_op_def)

lemma index_lookup_fold_index_op:
  "index_lookup (fold (index_op prop) ops m) k = index_lookup m k @ replicate (count_list ops k) prop"
  by (induction ops arbitrary: m) (simp_all add: index_lookup_index_op replicate_app_Cons_same)

lemma index_lookup_index_prop: "index_lookup (index_prop prop m) k = index_lookup m k @ entries_for k prop"
  by (simp add: index_prop_def entries_for_def index_lookup_fold_index_op split: option.splits)

lemma index_lookup_fold_index_prop:
  "index_lookup (fold index_prop props m) k = index_lookup m k @ concat (map (entries_for k) props)"
  by (induction props arbitrary: m) (simp_all add: index_lookup_index_prop)

lemma operationProps_eq:
  "operationProps properties operation = concat (map (entries_for operation) properties)"
  using index_lookup_fold_index_prop [of properties Map.empty operation]
  by (simp add: operationProps_def operationPropertiesMap_def index_lookup_def)

text \<open>So the classified subset is made of the routable descriptors whose declared
  operations include the operation: one restricted to another operation is left out,
  and so is one that declares no operations at all. The scanning draft keeps the
  latter.\<close>

lemma set_operationProps:
  "set (operationProps properties operation) =
     {prop \<in> set properties. routable prop \<and>
        (\<exists>ops. show_operation prop = Some ops \<and> operation \<in> set ops)}"
  by (auto simp: operationProps_eq entries_for_def count_list_0_iff split: option.splits if_splits dest: sym)

lemma restricted_excluded:
  "show_operation prop = Some [a] \<Longrightarrow> a \<noteq> b \<Longrightarrow> prop \<notin> set (operationProps properties b)"
  by (simp add: set_operationProps)

lemma unrestricted_dropped:
  "show_operation prop = None \<Longrightarrow> prop \<notin> set (operationProps properties operation)"
  by (simp add: set_operationProps)

lemma unrestricted_kept_draft:
  "show_operation prop = None \<Longrightarrow> routable prop \<Longrightarrow> prop \<in> set properties \<Longrightarrow> prop \<in> set (operationProps_draft properties operation)"
  by (simp add: operationProps_draft_def)

lemma restricted_excluded_draft:
  "show_operation prop = Some [a] \<Longrightarrow> a \<noteq> b \<Longrightarrow> prop \<notin> set (operationProps_draft properties b)"
  by (simp add: operationProps_draft_def)


text \<open>A descriptor routed to the query that declares no operations, and an item that
  sets its parameter.\<close>

definition ex_unrestricted :: INodeProperties where
  "ex_unrestricted = \<lparr> name = ''expand_dropdowns'', send_type = Some ''query'',
        send_property = None, show_operation = None \<rparr>"

definition ex_params_unrestricted :: "string \<Rightarrow> nat \<Rightarrow> error + jsval" where
  "ex_params_unrestricted nm i =
     (if nm = ''operation'' then Inr (JStr ''GET /Ticket'')
      else if nm = ''expand_dropdowns'' then Inr (JBool True)
      else Inl (OtherError ''Could not get parameter''))"

text \<open>The scanning draft classifies the routable descriptors that declare no
  operations or declare the operation; where every routable descriptor declares its
  operations, the index and the scan classify the same descriptors.\<close>

lemma set_operationProps_draft:
  "set (operationProps_draft properties operation) =
     {prop \<in> set properties. routable prop \<and>
        (show_operation prop = None \<or>
         (\<exists>ops. show_operation prop = Some ops \<and> operation \<in> set ops))}"
  by (auto simp: operationProps_draft_def split: option.splits)

lemma index_eq_scan_when_declared:
  assumes "\<forall>prop \<in> set properties. routable prop \<longrightarrow> show_operation prop \<noteq> None"
  shows "set (operationProps properties operation) = set (operationProps_draft properties operation)"
  using assms by (auto simp: set_operationProps set_operationProps_draft)

text \<open>The claim as the spec states it, that a descriptor with no declared operation
  restriction is included for every operation, fails on the index: such a descriptor
  is classified for no operation, and the request goes out without its parameter.\<close>

theorem unrestricted_descriptor_counterexample:
  "ex_unrestricted \<in> set [ex_unrestricted]
   \<and> routable ex_unrestricted \<and> show_operation ex_unrestricted = None
   \<and> ex_unrestricted \<notin> set (operationProps [ex_unrestricted] ''GET /Ticket'')
   \<and> operationProps [ex_unrestricted] ''GET /Ticket'' = []
   \<and> map (\<lambda>r. (http_method r, url r, qs r))
         (snd (execute [ex_unrestricted] (ex_env\<lparr>getNodeParameter := ex_params_unrestricted\<rparr>))) =
       [(''POST'', ''https://glpi.example.com/api.php/token'', None),
        (''GET'', ''https://glpi.example.com/api.php/Ticket'', None)]"
proof -
  have "operationProps [ex_unrestricted] ''GET /Ticket'' = []" by code_simp
  moreover have "routable ex_unrestricted \<and> show_operation ex_unrestricted = None" by code_simp
  moreover have "map (\<lambda>r. (http_method r, url r, qs r))
         (snd (execute [ex_unrestricted] (ex_env\<lparr>getNodeParameter := ex_params_unrestricted\<rparr>))) =
       [(''POST'', ''https://glpi.example.com/api.php/token'', None),
        (''GET'', ''https://glpi.example.com/api.php/Ticket'', None)]" by code_simp
  ultimately show ?thesis by simp
qed

text \<open>
  C1. For every operation identifier, the classified subset holds exactly the routable
  descriptors whose declared operations include the identifier. So a descriptor that
  declares the operation is included, a descriptor restricted to operation A is
  excluded when classifying for a different operation B, and a descriptor that declares
  no operations is skipped by the index and included for no operation. When every
  routable descriptor declares its operations, the index classifies the same
  descriptors as the scan of the earlier drafts.
\<close>

theorem classified_subset:
  "set (operationProps properties operation) =
     {prop \<in> set properties. routable prop \<and>
        (\<exists>ops. show_operation prop = Some ops \<and> operation \<in> set ops)}
   \<and> (prop \<in> set properties \<and> routable prop \<and> show_operation prop = Some ops \<and>
        operation \<in> set ops \<longrightarrow> prop \<in> set (operationProps properties operation))
   \<and> (show_operation prop = Some [a] \<and> a \<noteq> b \<longrightarrow>
        prop \<notin> set (operationProps properties b))
   \<and> (show_operation prop = None \<longrightarrow> prop \<notin> set (operationProps properties operation))
   \<and> ((\<forall>p \<in> set properties. routable p \<longrightarrow> show_operation p \<noteq> None) \<longrightarrow>
        set (operationProps properties operation) =
          set (operationProps_draft properties operation))"
  using index_eq_scan_when_declared [of properties operation]
    restricted_excluded [of "prop" a b properties]
    unrestricted_dropped [of "prop" properties operation]
  by (auto simp: set_operationProps)

theorem classified_subset_witness:
  "ex_start \<in> set [ex_start, ex_unrestricted] \<and> routable ex_start
   \<and> show_operation ex_start = Some [''GET /Ticket''] \<and> ''GET /Ticket'' \<in> set [''GET /Ticket'']
   \<and> ex_start \<in> set (operationProps [ex_start, ex_unrestricted] ''GET /Ticket'')
   \<and> ''GET /Ticket'' \<noteq> ''POST /Ticket''
   \<and> ex_start \<notin> set (operationProps [ex_start, ex_unrestricted] ''POST /Ticket'')
   \<and> show_operation ex_unrestricted = None
   \<and> ex_unrestricted \<notin> set (operationProps [ex_start, ex_unrestricted] ''GET /Ticket'')
   \<and> list_all (\<lambda>p. show_operation p \<noteq> None) ex_ticket_fields
   \<and> set (operationProps ex_ticket_fields ''POST /Ticket'') =
       set (operationProps_draft ex_ticket_fields ''POST /Ticket'')
   \<and> operationProps ex_ticket_fields ''GET /Ticket'' =
       [\<lparr> name = ''GLPI-Entity'', send_type = Some ''header'', send_property = None,
          show_operation = Some [''POST /Ticket'', ''GET /Ticket''] \<rparr>]"
proof -
  have a: "routable ex_start" "show_operation ex_start = Some [''GET /Ticket'']"
    "show_operation ex_unrestricted = None"
    by (simp_all add: ex_start_def ex_unrestricted_def routable_def)
  have b: "list_all (\<lambda>p. show_operation p \<noteq> None) ex_ticket_fields"
    by (simp add: ex_ticket_fields_def)
  then have inv: "\<forall>p \<in> set ex_ticket_fields. routable p \<longrightarrow> show_operation p \<noteq> None"
    by (simp add: list_all_iff)
  have c: "operationProps ex_ticket_fields ''GET /Ticket'' =
       [\<lparr> name = ''GLPI-Entity'', send_type = Some ''header'', send_property = None,
          show_operation = Some [''POST /Ticket'', ''GET /Ticket''] \<rparr>]"
    by code_simp
  from classified_subset [of "[ex_start, ex_unrestricted]" "''GET /Ticket''" ex_start
      "[''GET /Ticket'']" "''GET /Ticket''" "''POST /Ticket''"] a
  have 1: "ex_start \<in> set (operationProps [ex_start, ex_unrestricted] ''GET /Ticket'')"
    and 2: "ex_start \<notin> set (operationProps [ex_start, ex_unrestricted] ''POST /Ticket'')"
    by simp_all
  from classified_subset [of "[ex_start, ex_unrestricted]" "''GET /Ticket''" ex_unrestricted] a
  have 3: "ex_unrestricted \<notin> set (operationProps [ex_start, ex_unrestricted] ''GET /Ticket'')"
    by simp
  from classified_subset [of ex_ticket_fields "''POST /Ticket''"] inv
  have 4: "set (operationProps ex_ticket_fields ''POST /Ticket'') =
       set (operationProps_draft ex_ticket_fields ''POST /Ticket'')"
    by blast
  from a b c 1 2 3 4 show ?thesis by simp
qed

section \<open>Properties of the Path Resolver\<close>

text \<open>The text of a token with the given name.\<close>

definition placeholder :: "string \<Rightarrow> string" where
  "placeholder nm = CHR ''{'' # nm @ ''}''"


























section \<open>Properties of the Request Dispatcher\<close>

text \<open>The first piece of the split is the text before the first space.\<close>

lemma split_Cons: "\<exists>rest. split sep s = takeWhile (\<lambda>c. c \<noteq> sep) s # rest"
  by (subst split.simps) (simp split: list.splits)

lemma operation_method_eq:
  "operation_method operation = takeWhile (\<lambda>c. c \<noteq> CHR 0x20) operation"
  using split_Cons [of "CHR 0x20" operation]
  by (auto simp: operation_method_def part_or_empty_def)

text \<open>
  C4. The method is the text of the operation before its first space. When it is not
  one of GET, POST, PUT, PATCH and DELETE, the item ends with the error "Invalid HTTP
  method parsed from operation" and the list of requests issued is unchanged.
\<close>

theorem invalid_method_rejected:
  "operation_method operation = takeWhile (\<lambda>c. c \<noteq> CHR 0x20) operation
   \<and> set validMethods = {''GET'', ''POST'', ''PUT'', ''PATCH'', ''DELETE''}
   \<and> (getNodeParameter e ''operation'' i = Inr (JStr operation) \<and>
        operation_method operation \<notin> set validMethods \<longrightarrow>
        process_item properties e accessToken i sent =
          (Inl (NodeOperationError
             (''Invalid HTTP method parsed from operation: '' @ [CHR 0x22]
                @ operation_method operation @ [CHR 0x22])), sent))"
proof (intro conjI impI)
  show "operation_method operation = takeWhile (\<lambda>c. c \<noteq> CHR 0x20) operation"
    by (rule operation_method_eq)
  show "set validMethods = {''GET'', ''POST'', ''PUT'', ''PATCH'', ''DELETE''}"
    by (simp add: validMethods_def)
next
  assume "getNodeParameter e ''operation'' i = Inr (JStr operation) \<and>
        operation_method operation \<notin> set validMethods"
  then show "process_item properties e accessToken i sent =
          (Inl (NodeOperationError
             (''Invalid HTTP method parsed from operation: '' @ [CHR 0x22]
                @ operation_method operation @ [CHR 0x22])), sent)"
    by (simp add: process_item_def)
qed

text \<open>An operation named after its operationId, not in the form "METHOD /path".\<close>

definition ex_params_badop :: "string \<Rightarrow> nat \<Rightarrow> error + jsval" where
  "ex_params_badop nm i =
     (if nm = ''operation'' then Inr (JStr ''Get Ticket By Id'')
      else Inl (OtherError ''Could not get parameter''))"

theorem invalid_method_rejected_witness:
  "getNodeParameter (ex_env\<lparr>getNodeParameter := ex_params_badop\<rparr>) ''operation'' 0
     = Inr (JStr ''Get Ticket By Id'')
   \<and> operation_method ''Get Ticket By Id'' = ''Get''
   \<and> ''Get'' \<notin> set validMethods
   \<and> process_item [] (ex_env\<lparr>getNodeParameter := ex_params_badop\<rparr>) (JStr ''tok'') 0
        [tokenRequest ex_credentials] =
        (Inl (NodeOperationError
           (''Invalid HTTP method parsed from operation: '' @ [CHR 0x22] @ ''Get'' @ [CHR 0x22])),
         [tokenRequest ex_credentials])
   \<and> execute [] (ex_env\<lparr>getNodeParameter := ex_params_badop\<rparr>) =
        (Inl (NodeOperationError
           (''Invalid HTTP method parsed from operation: '' @ [CHR 0x22] @ ''Get'' @ [CHR 0x22])),
         [tokenRequest ex_credentials])"
proof -
  have a: "getNodeParameter (ex_env\<lparr>getNodeParameter := ex_params_badop\<rparr>) ''operation'' 0
     = Inr (JStr ''Get Ticket By Id'')"
    by (simp add: ex_params_badop_def)
  have b: "operation_method ''Get Ticket By Id'' = ''Get''"
    by code_simp
  have c: "''Get'' \<notin> set validMethods"
    by (simp add: validMethods_def)
  have d: "execute [] (ex_env\<lparr>getNodeParameter := ex_params_badop\<rparr>) =
        (Inl (NodeOperationError
           (''Invalid HTTP method parsed from operation: '' @ [CHR 0x22] @ ''Get'' @ [CHR 0x22])),
         [tokenRequest ex_credentials])"
    by code_simp
  from invalid_method_rejected [of "''Get Ticket By Id''" "ex_env\<lparr>getNodeParameter := ex_params_badop\<rparr>"
      0 "[]" "JStr ''tok''" "[tokenRequest ex_credentials]"] a b c d
  show ?thesis by simp
qed

section \<open>Properties of the Token Acquirer\<close>

text \<open>The names in a form-urlencoded body: in each piece between ampersands, the text
  before the equals sign.\<close>

definition form_keys :: "string \<Rightarrow> string list" where
  "form_keys b = map (takeWhile (\<lambda>c. c \<noteq> CHR ''='')) (split (CHR ''&'') b)"

lemma hex_digit_no_sep: "CHR ''&'' \<noteq> hex_digit n \<and> CHR ''='' \<noteq> hex_digit n"
proof -
  have "hex_digit n \<in> set ''0123456789ABCDEF''"
    unfolding hex_digit_def by (rule nth_mem) simp
  then show ?thesis by auto
qed

lemma form_encode_char_no_sep:
  "CHR ''&'' \<notin> set (form_encode_char c) \<and> CHR ''='' \<notin> set (form_encode_char c)"
  using hex_digit_no_sep [of "of_char c div 16"] hex_digit_no_sep [of "of_char c"]
  by (auto simp: form_encode_char_def form_unreserved_def percent_def)

lemma form_encode_no_sep:
  "CHR ''&'' \<notin> set (form_encode s) \<and> CHR ''='' \<notin> set (form_encode s)"
  using form_encode_char_no_sep by (auto simp: form_encode_def)

lemma takeWhile_no_sep:
  "sep \<notin> set x \<Longrightarrow> takeWhile (\<lambda>c. c \<noteq> sep) (x @ ys) = x @ takeWhile (\<lambda>c. c \<noteq> sep) ys"
  by (induction x) auto

lemma dropWhile_no_sep:
  "sep \<notin> set x \<Longrightarrow> dropWhile (\<lambda>c. c \<noteq> sep) (x @ ys) = dropWhile (\<lambda>c. c \<noteq> sep) ys"
  by (induction x) auto

lemma takeWhile_all_no_sep:
  "sep \<notin> set x \<Longrightarrow> takeWhile (\<lambda>c. c \<noteq> sep) x = x \<and> dropWhile (\<lambda>c. c \<noteq> sep) x = []"
  by (induction x) auto

lemma split_no_sep: "sep \<notin> set x \<Longrightarrow> split sep x = [x]"
  by (subst split.simps) (simp add: takeWhile_all_no_sep)

lemma split_append_sep:
  "sep \<notin> set x \<Longrightarrow> split sep (x @ sep # r) = x # split sep r"
  by (subst split.simps) (simp add: takeWhile_no_sep dropWhile_no_sep)

lemma split_join:
  "xs \<noteq> [] \<Longrightarrow> \<forall>x\<in>set xs. sep \<notin> set x \<Longrightarrow> split sep (join [sep] xs) = xs"
  by (induction "[sep]" xs rule: join.induct) (simp_all add: split_no_sep split_append_sep)

lemma form_keys_URLSearchParams:
  assumes "entries \<noteq> []"
  shows "form_keys (URLSearchParams_toString entries) = map (\<lambda>(k, v). form_encode k) entries"
proof -
  have "\<forall>x \<in> set (map (\<lambda>(k, v). form_encode k @ ''='' @ form_encode v) entries). CHR ''&'' \<notin> set x"
    using form_encode_no_sep by auto
  with assms have "split (CHR ''&'') (URLSearchParams_toString entries) =
      map (\<lambda>(k, v). form_encode k @ ''='' @ form_encode v) entries"
    unfolding URLSearchParams_toString_def by (intro split_join) simp_all
  moreover have "takeWhile (\<lambda>c. c \<noteq> CHR ''='') (form_encode k @ ''='' @ form_encode v) = form_encode k" for k v
    using form_encode_no_sep [of k] by (simp add: takeWhile_no_sep)
  ultimately show ?thesis
    by (simp add: form_keys_def split_def)
qed

text \<open>The keys of the entries and of the body: the four fixed ones, then
  \<^verbatim>\<open>client_id\<close> and \<^verbatim>\<open>client_secret\<close>, each only when its credential is not empty.\<close>

lemma tokenBodyEntries_keys:
  "map fst (tokenBodyEntries c) =
     [''grant_type'', ''username'', ''password'', ''scope'']
     @ (if clientId c \<noteq> [] then [''client_id''] else [])
     @ (if clientSecret c \<noteq> [] then [''client_secret''] else [])"
  by (simp add: tokenBodyEntries_def Let_def)

lemma form_encode_key_names:
  "form_encode ''grant_type'' = ''grant_type''" "form_encode ''username'' = ''username''"
  "form_encode ''password'' = ''password''" "form_encode ''scope'' = ''scope''"
  "form_encode ''client_id'' = ''client_id''" "form_encode ''client_secret'' = ''client_secret''"
  by code_simp+

lemma token_body_form_keys:
  "form_keys (URLSearchParams_toString (tokenBodyEntries c)) =
     [''grant_type'', ''username'', ''password'', ''scope'']
     @ (if clientId c \<noteq> [] then [''client_id''] else [])
     @ (if clientSecret c \<noteq> [] then [''client_secret''] else [])"
proof -
  have ne: "tokenBodyEntries c \<noteq> []"
    using tokenBodyEntries_keys [of c] by auto
  have "map (\<lambda>(k, v). form_encode k) (tokenBodyEntries c) = map form_encode (map fst (tokenBodyEntries c))"
    by (simp add: split_def)
  with form_keys_URLSearchParams [OF ne] show ?thesis
    by (simp add: tokenBodyEntries_keys form_encode_key_names)
qed

text \<open>
  C5. The body of the token request is the form-urlencoded text of the entries. With an
  empty client id and an empty client secret its keys are \<^verbatim>\<open>grant_type\<close>,
  \<^verbatim>\<open>username\<close>, \<^verbatim>\<open>password\<close> and \<^verbatim>\<open>scope\<close> only; with both non-empty,
  \<^verbatim>\<open>client_id\<close> and \<^verbatim>\<open>client_secret\<close> follow, with the credential's values.
\<close>

theorem token_body_client_keys:
  "body (tokenRequest c) = Some (JStr (URLSearchParams_toString (tokenBodyEntries c)))
   \<and> (clientId c = [] \<and> clientSecret c = [] \<longrightarrow>
        form_keys (URLSearchParams_toString (tokenBodyEntries c)) =
          [''grant_type'', ''username'', ''password'', ''scope''])
   \<and> (clientId c \<noteq> [] \<and> clientSecret c \<noteq> [] \<longrightarrow>
        form_keys (URLSearchParams_toString (tokenBodyEntries c)) =
          [''grant_type'', ''username'', ''password'', ''scope'', ''client_id'', ''client_secret'']
        \<and> map_of (tokenBodyEntries c) ''client_id'' = Some (clientId c)
        \<and> map_of (tokenBodyEntries c) ''client_secret'' = Some (clientSecret c))"
  by (simp add: token_body_form_keys tokenRequest_def) (simp add: tokenBodyEntries_def)

theorem token_body_client_keys_witness:
  "clientId ex_credentials = [] \<and> clientSecret ex_credentials = []
   \<and> body (tokenRequest ex_credentials) =
        Some (JStr ''grant_type=password&username=tech&password=secret&scope=api'')
   \<and> form_keys ''grant_type=password&username=tech&password=secret&scope=api'' =
        [''grant_type'', ''username'', ''password'', ''scope'']
   \<and> clientId (ex_credentials\<lparr>clientId := ''n8n'', clientSecret := ''s3 cr&t''\<rparr>) \<noteq> []
   \<and> clientSecret (ex_credentials\<lparr>clientId := ''n8n'', clientSecret := ''s3 cr&t''\<rparr>) \<noteq> []
   \<and> body (tokenRequest (ex_credentials\<lparr>clientId := ''n8n'', clientSecret := ''s3 cr&t''\<rparr>)) =
        Some (JStr ''grant_type=password&username=tech&password=secret&scope=api&client_id=n8n&client_secret=s3+cr%26t'')
   \<and> form_keys ''grant_type=password&username=tech&password=secret&scope=api&client_id=n8n&client_secret=s3+cr%26t'' =
        [''grant_type'', ''username'', ''password'', ''scope'', ''client_id'', ''client_secret'']"
proof -
  have a: "clientId ex_credentials = [] \<and> clientSecret ex_credentials = []"
    by (simp add: ex_credentials_def)
  have b: "clientId (ex_credentials\<lparr>clientId := ''n8n'', clientSecret := ''s3 cr&t''\<rparr>) \<noteq> []
     \<and> clientSecret (ex_credentials\<lparr>clientId := ''n8n'', clientSecret := ''s3 cr&t''\<rparr>) \<noteq> []"
    by simp
  have s1: "URLSearchParams_toString (tokenBodyEntries ex_credentials) =
      ''grant_type=password&username=tech&password=secret&scope=api''"
    by code_simp
  have s2: "URLSearchParams_toString (tokenBodyEntries (ex_credentials\<lparr>clientId := ''n8n'', clientSecret := ''s3 cr&t''\<rparr>)) =
      ''grant_type=password&username=tech&password=secret&scope=api&client_id=n8n&client_secret=s3+cr%26t''"
    by code_simp
  from token_body_client_keys [of ex_credentials]
    token_body_client_keys [of "ex_credentials\<lparr>clientId := ''n8n'', clientSecret := ''s3 cr&t''\<rparr>"]
    a b s1 s2
  show ?thesis by simp
qed

text \<open>A token call that fails, and an answer that is \<^verbatim>\<open>null\<close> or \<^verbatim>\<open>undefined\<close>,
  end the execution too, with the error of the call or the TypeError of the property
  access.\<close>

lemma token_call_failure_is_hard_failure:
  "httpRequest e [] (tokenRequest (getCredentials e)) = Inl err \<Longrightarrow>
   execute properties e = (Inl err, [tokenRequest (getCredentials e)])"
  by (simp add: execute_def Let_def)

lemma nullish_token_response_is_hard_failure:
  "httpRequest e [] (tokenRequest (getCredentials e)) = Inr tokenResponse \<Longrightarrow>
   tokenResponse = JNull \<or> tokenResponse = JUndefined \<Longrightarrow>
   \<exists>err. execute properties e = (Inl err, [tokenRequest (getCredentials e)])"
  by (auto simp: execute_def Let_def)

text \<open>
  C6. When the token endpoint answers without an \<^verbatim>\<open>access_token\<close> (the property is
  missing, or its value is falsy), \<^verbatim>\<open>execute\<close> ends with the error "OAuth2 token
  request succeeded but returned no access_token", whatever \<^verbatim>\<open>continueOnFail()\<close>
  says, and the token request is the only request issued.
\<close>

theorem missing_token_is_hard_failure:
  "httpRequest e [] (tokenRequest (getCredentials e)) = Inr tokenResponse \<and>
   get_property tokenResponse ''access_token'' = Inr accessToken \<and>
   \<not> truthy accessToken \<longrightarrow>
   execute properties e =
     (Inl (NodeOperationError
        ''OAuth2 token request succeeded but returned no access_token. Check GLPI credentials.''),
      [tokenRequest (getCredentials e)])"
  by (simp add: execute_def Let_def)

text \<open>A token endpoint that answers without a token, in a batch of two items with
  continue-on-failure enabled.\<close>

definition ex_http_no_token :: "http_request list \<Rightarrow> http_request \<Rightarrow> error + jsval" where
  "ex_http_no_token sent req =
     (if sent = [] then Inr (JObj [(''token_type'', JStr ''Bearer'')])
      else Inr (JObj [(''id'', JNum 1)]))"

theorem missing_token_is_hard_failure_witness:
  "httpRequest (ex_env\<lparr>items_length := 2, httpRequest := ex_http_no_token, continueOnFail := True\<rparr>) []
      (tokenRequest ex_credentials) = Inr (JObj [(''token_type'', JStr ''Bearer'')])
   \<and> get_property (JObj [(''token_type'', JStr ''Bearer'')]) ''access_token'' = Inr JUndefined
   \<and> \<not> truthy JUndefined
   \<and> execute [ex_start]
        (ex_env\<lparr>items_length := 2, httpRequest := ex_http_no_token, continueOnFail := True\<rparr>) =
     (Inl (NodeOperationError
        ''OAuth2 token request succeeded but returned no access_token. Check GLPI credentials.''),
      [tokenRequest ex_credentials])"
proof -
  have a: "httpRequest (ex_env\<lparr>items_length := 2, httpRequest := ex_http_no_token, continueOnFail := True\<rparr>) []
      (tokenRequest (getCredentials (ex_env\<lparr>items_length := 2, httpRequest := ex_http_no_token, continueOnFail := True\<rparr>)))
      = Inr (JObj [(''token_type'', JStr ''Bearer'')])"
    by (simp add: ex_http_no_token_def)
  have b: "get_property (JObj [(''token_type'', JStr ''Bearer'')]) ''access_token'' = Inr JUndefined"
    by simp
  have c: "getCredentials (ex_env\<lparr>items_length := 2, httpRequest := ex_http_no_token, continueOnFail := True\<rparr>) = ex_credentials"
    by (simp add: ex_env_def)
  from missing_token_is_hard_failure [of "ex_env\<lparr>items_length := 2, httpRequest := ex_http_no_token, continueOnFail := True\<rparr>"
      "JObj [(''token_type'', JStr ''Bearer'')]" JUndefined "[ex_start]"] a b c
  show ?thesis by simp
qed


section \<open>Properties of the item loop\<close>

text \<open>The record that stands for a caught error.\<close>

definition error_record :: "error \<Rightarrow> INodeExecutionData" where
  "error_record err = Json (JObj [(''error'', JStr (message err))])"

lemma item_loop_continue_never_fails:
  "continueOnFail e \<Longrightarrow>
   \<exists>out sent'. item_loop properties e accessToken is returnData sent = (Inr out, sent')"
proof (induction "is" arbitrary: returnData sent)
  case Nil
  show ?case by simp
next
  case (Cons i "is")
  obtain res sent1 where p: "process_item properties e accessToken i sent = (res, sent1)"
    by (cases "process_item properties e accessToken i sent")
  show ?case
  proof (cases res)
    case (Inl err)
    with p Cons show ?thesis by simp
  next
    case (Inr records)
    with p Cons show ?thesis by simp
  qed
qed

text \<open>What each item adds to the output when the loop continues on failure: its
  records, or the one record of its error.\<close>

fun item_outputs ::
  "INodeProperties list \<Rightarrow> env \<Rightarrow> jsval \<Rightarrow> nat list \<Rightarrow> http_request list
     \<Rightarrow> INodeExecutionData list list" where
  "item_outputs properties e accessToken [] sent = []"
| "item_outputs properties e accessToken (i # rest) sent =
     (case process_item properties e accessToken i sent of
        (Inl err, sent') \<Rightarrow>
          [error_record err] # item_outputs properties e accessToken rest sent'
      | (Inr records, sent') \<Rightarrow>
          records # item_outputs properties e accessToken rest sent')"

lemma length_item_outputs:
  "length (item_outputs properties e accessToken rest sent) = length rest"
  by (induction rest arbitrary: sent) (auto split: prod.splits sum.splits)

lemma item_loop_outputs:
  "continueOnFail e \<Longrightarrow>
   fst (item_loop properties e accessToken rest returnData sent) =
     Inr (returnData @ concat (item_outputs properties e accessToken rest sent))"
  by (induction rest arbitrary: returnData sent)
     (auto split: prod.splits sum.splits simp: error_record_def)

text \<open>
  C7. With continue-on-failure enabled, an item's error becomes the output record
  \<^verbatim>\<open>{error: message}\<close> and the loop goes on with the next item, so the loop never ends
  with an error; when items 1 and 3 of three each give one record and item 2 fails, the
  output is those two records with the error record between them. With
  continue-on-failure disabled, the loop ends with the item's error, and the requests
  issued are those up to the failing item: the items after it are not processed.
\<close>

theorem failure_policy:
  "(continueOnFail e \<and> process_item properties e accessToken i sent = (Inl err, sent') \<longrightarrow>
      item_loop properties e accessToken (i # rest) returnData sent =
        item_loop properties e accessToken rest (returnData @ [error_record err]) sent')
   \<and> (continueOnFail e \<longrightarrow>
        fst (item_loop properties e accessToken rest returnData sent) =
          Inr (returnData @ concat (item_outputs properties e accessToken rest sent)) \<and>
        length (item_outputs properties e accessToken rest sent) = length rest)
   \<and> (continueOnFail e \<and>
        process_item properties e accessToken 0 s0 = (Inr [r1], s1) \<and>
        process_item properties e accessToken 1 s1 = (Inl err, s2) \<and>
        process_item properties e accessToken 2 s2 = (Inr [r3], s3) \<longrightarrow>
        item_loop properties e accessToken [0, 1, 2] [] s0 = (Inr [r1, error_record err, r3], s3))
   \<and> (\<not> continueOnFail e \<and> process_item properties e accessToken i sent = (Inl err, sent') \<longrightarrow>
        item_loop properties e accessToken (i # rest) returnData sent = (Inl err, sent'))"
proof (intro conjI impI)
  assume "continueOnFail e"
  then show "fst (item_loop properties e accessToken rest returnData sent) =
          Inr (returnData @ concat (item_outputs properties e accessToken rest sent))"
    by (rule item_loop_outputs)
qed (simp_all add: error_record_def length_item_outputs)

text \<open>Three items ask for tickets 40, 41 and 42; the call for ticket 41 fails.\<close>

definition ex_params_ticket :: "string \<Rightarrow> nat \<Rightarrow> error + jsval" where
  "ex_params_ticket nm i =
     (if nm = ''operation'' then Inr (JStr ''GET /Ticket/{id}'')
      else if nm = ''id'' then Inr (JNum (of_nat (40 + i)))
      else Inl (OtherError ''Could not get parameter''))"

definition ex_http_second_fails :: "http_request list \<Rightarrow> http_request \<Rightarrow> error + jsval" where
  "ex_http_second_fails sent req =
     (if sent = [] then Inr (JObj [(''access_token'', JStr ''tok'')])
      else if url req = ''https://glpi.example.com/api.php/Ticket/41''
      then Inl (OtherError ''Request failed with status code 404'')
      else Inr (JObj [(''url'', JStr (url req))]))"

definition ex_env_batch :: "bool \<Rightarrow> env" where
  "ex_env_batch cont =
     ex_env \<lparr> items_length := 3, getNodeParameter := ex_params_ticket,
              httpRequest := ex_http_second_fails, continueOnFail := cont \<rparr>"

text \<open>The requests issued before item \<open>n\<close> of the example.\<close>

primrec ex_sent :: "bool \<Rightarrow> nat \<Rightarrow> http_request list" where
  "ex_sent cont 0 = [tokenRequest ex_credentials]"
| "ex_sent cont (Suc n) =
     snd (process_item [] (ex_env_batch cont) (JStr ''tok'') n (ex_sent cont n))"

theorem failure_policy_witness:
  "continueOnFail (ex_env_batch True)
   \<and> process_item [] (ex_env_batch True) (JStr ''tok'') 0 (ex_sent True 0) =
       (Inr [Json (JObj [(''url'', JStr ''https://glpi.example.com/api.php/Ticket/40'')])],
        ex_sent True 1)
   \<and> process_item [] (ex_env_batch True) (JStr ''tok'') 1 (ex_sent True 1) =
       (Inl (OtherError ''Request failed with status code 404''), ex_sent True 2)
   \<and> process_item [] (ex_env_batch True) (JStr ''tok'') 2 (ex_sent True 2) =
       (Inr [Json (JObj [(''url'', JStr ''https://glpi.example.com/api.php/Ticket/42'')])],
        ex_sent True 3)
   \<and> item_loop [] (ex_env_batch True) (JStr ''tok'') [0, 1, 2] [] (ex_sent True 0) =
       (Inr [Json (JObj [(''url'', JStr ''https://glpi.example.com/api.php/Ticket/40'')]),
             Json (JObj [(''error'', JStr ''Request failed with status code 404'')]),
             Json (JObj [(''url'', JStr ''https://glpi.example.com/api.php/Ticket/42'')])],
        ex_sent True 3)
   \<and> map url (ex_sent True 3) =
       [''https://glpi.example.com/api.php/token'', ''https://glpi.example.com/api.php/Ticket/40'',
        ''https://glpi.example.com/api.php/Ticket/41'', ''https://glpi.example.com/api.php/Ticket/42'']
   \<and> execute [] (ex_env_batch True) =
       (Inr [Json (JObj [(''url'', JStr ''https://glpi.example.com/api.php/Ticket/40'')]),
             Json (JObj [(''error'', JStr ''Request failed with status code 404'')]),
             Json (JObj [(''url'', JStr ''https://glpi.example.com/api.php/Ticket/42'')])],
        ex_sent True 3)
   \<and> \<not> continueOnFail (ex_env_batch False)
   \<and> process_item [] (ex_env_batch False) (JStr ''tok'') 1 (ex_sent False 1) =
       (Inl (OtherError ''Request failed with status code 404''), ex_sent False 2)
   \<and> item_loop [] (ex_env_batch False) (JStr ''tok'') [1, 2]
        [Json (JObj [(''url'', JStr ''https://glpi.example.com/api.php/Ticket/40'')])]
        (ex_sent False 1) =
       (Inl (OtherError ''Request failed with status code 404''), ex_sent False 2)
   \<and> map url (ex_sent False 2) =
       [''https://glpi.example.com/api.php/token'', ''https://glpi.example.com/api.php/Ticket/40'',
        ''https://glpi.example.com/api.php/Ticket/41'']
   \<and> execute [] (ex_env_batch False) =
       (Inl (OtherError ''Request failed with status code 404''), ex_sent False 2)"
proof -
  have ct: "continueOnFail (ex_env_batch True)" and cf: "\<not> continueOnFail (ex_env_batch False)"
    by (simp_all add: ex_env_batch_def)
  have s2: "ex_sent c 2 = snd (process_item [] (ex_env_batch c) (JStr ''tok'') 1 (ex_sent c 1))" for c
    by (simp add: numeral_2_eq_2)
  have s3: "ex_sent c 3 = snd (process_item [] (ex_env_batch c) (JStr ''tok'') 2 (ex_sent c 2))" for c
    by (simp add: numeral_3_eq_3 numeral_2_eq_2)
  have f0: "fst (process_item [] (ex_env_batch True) (JStr ''tok'') 0 (ex_sent True 0)) =
       Inr [Json (JObj [(''url'', JStr ''https://glpi.example.com/api.php/Ticket/40'')])]"
    by code_simp
  have f1: "fst (process_item [] (ex_env_batch True) (JStr ''tok'') 1 (ex_sent True 1)) =
       Inl (OtherError ''Request failed with status code 404'')"
    by code_simp
  have f2: "fst (process_item [] (ex_env_batch True) (JStr ''tok'') 2 (ex_sent True 2)) =
       Inr [Json (JObj [(''url'', JStr ''https://glpi.example.com/api.php/Ticket/42'')])]"
    by code_simp
  have g1: "fst (process_item [] (ex_env_batch False) (JStr ''tok'') 1 (ex_sent False 1)) =
       Inl (OtherError ''Request failed with status code 404'')"
    by code_simp
  have p0: "process_item [] (ex_env_batch True) (JStr ''tok'') 0 (ex_sent True 0) =
       (Inr [Json (JObj [(''url'', JStr ''https://glpi.example.com/api.php/Ticket/40'')])],
        ex_sent True 1)"
    using f0 by (simp add: prod_eq_iff)
  have p1: "process_item [] (ex_env_batch True) (JStr ''tok'') 1 (ex_sent True 1) =
       (Inl (OtherError ''Request failed with status code 404''), ex_sent True 2)"
    using f1 s2 [of True] by (simp add: prod_eq_iff)
  have p2: "process_item [] (ex_env_batch True) (JStr ''tok'') 2 (ex_sent True 2) =
       (Inr [Json (JObj [(''url'', JStr ''https://glpi.example.com/api.php/Ticket/42'')])],
        ex_sent True 3)"
    using f2 s3 [of True] by (simp add: prod_eq_iff)
  have q1: "process_item [] (ex_env_batch False) (JStr ''tok'') 1 (ex_sent False 1) =
       (Inl (OtherError ''Request failed with status code 404''), ex_sent False 2)"
    using g1 s2 [of False] by (simp add: prod_eq_iff)
  have u3: "map url (ex_sent True 3) =
       [''https://glpi.example.com/api.php/token'', ''https://glpi.example.com/api.php/Ticket/40'',
        ''https://glpi.example.com/api.php/Ticket/41'', ''https://glpi.example.com/api.php/Ticket/42'']"
    by code_simp
  have u2: "map url (ex_sent False 2) =
       [''https://glpi.example.com/api.php/token'', ''https://glpi.example.com/api.php/Ticket/40'',
        ''https://glpi.example.com/api.php/Ticket/41'']"
    by code_simp
  have xt: "execute [] (ex_env_batch True) =
       (Inr [Json (JObj [(''url'', JStr ''https://glpi.example.com/api.php/Ticket/40'')]),
             Json (JObj [(''error'', JStr ''Request failed with status code 404'')]),
             Json (JObj [(''url'', JStr ''https://glpi.example.com/api.php/Ticket/42'')])],
        ex_sent True 3)"
    by code_simp
  have xf: "execute [] (ex_env_batch False) =
       (Inl (OtherError ''Request failed with status code 404''), ex_sent False 2)"
    by code_simp
  from failure_policy [where e = "ex_env_batch True" and properties = "[]"
      and accessToken = "JStr ''tok''" and ?s0.0 = "ex_sent True 0"
      and ?r1.0 = "Json (JObj [(''url'', JStr ''https://glpi.example.com/api.php/Ticket/40'')])"
      and ?s1.0 = "ex_sent True 1" and err = "OtherError ''Request failed with status code 404''"
      and ?s2.0 = "ex_sent True 2"
      and ?r3.0 = "Json (JObj [(''url'', JStr ''https://glpi.example.com/api.php/Ticket/42'')])"
      and ?s3.0 = "ex_sent True 3"] ct p0 p1 p2
  have l3: "item_loop [] (ex_env_batch True) (JStr ''tok'') [0, 1, 2] [] (ex_sent True 0) =
       (Inr [Json (JObj [(''url'', JStr ''https://glpi.example.com/api.php/Ticket/40'')]),
             error_record (OtherError ''Request failed with status code 404''),
             Json (JObj [(''url'', JStr ''https://glpi.example.com/api.php/Ticket/42'')])],
        ex_sent True 3)"
    by blast
  from failure_policy [where e = "ex_env_batch False" and properties = "[]"
      and accessToken = "JStr ''tok''" and i = 1 and sent = "ex_sent False 1"
      and err = "OtherError ''Request failed with status code 404''"
      and sent' = "ex_sent False 2" and rest = "[2]"
      and returnData = "[Json (JObj [(''url'', JStr ''https://glpi.example.com/api.php/Ticket/40'')])]"]
    cf q1
  have l2: "item_loop [] (ex_env_batch False) (JStr ''tok'') [1, 2]
        [Json (JObj [(''url'', JStr ''https://glpi.example.com/api.php/Ticket/40'')])]
        (ex_sent False 1) =
       (Inl (OtherError ''Request failed with status code 404''), ex_sent False 2)"
    by blast
  from ct cf p0 p1 p2 q1 u3 u2 xt xf l3 l2 show ?thesis
    by (simp add: error_record_def)
qed


section \<open>Properties of the response normalization\<close>









end
